theory Spec2Isabelle
  imports Complex_Main
begin

section \<open>ligo-skymap-plot: the data of \<^verbatim>\<open>ligo/skymap/tool/ligo_skymap_plot.py\<close>\<close>

text \<open>
  The script parses its command line, reads one HEALPix sky map, and issues a fixed
  sequence of calls into plotting and astronomy libraries. The embedding below keeps
  that shape: \<open>main\<close> is one function that returns the list of library calls it made
  (the trace) together with either the exception that escaped or \<open>()\<close>.

  Python floats are modelled as \<open>real\<close> (IEEE rounding, infinities and NaN are not
  represented), Python and numpy integers as \<open>int\<close> or \<open>nat\<close>, and a Python \<open>str\<close> as
  a list of characters in which every code point used by the script is below 256.
\<close>

subsection \<open>Exceptions\<close>

datatype py_error =
    KeyError string
  | ValueError string
  | UnboundLocalError string
  | SystemExit int
  | OtherError string

subsection \<open>Values stored in the sky map metadata dictionary\<close>

datatype pyval = PyInt int | PyFloat real | PyStr string | PyBool bool

type_synonym metadata = "string \<rightharpoonup> pyval"

subsection \<open>Command line options (the namespace built by \<open>parser()\<close>)\<close>

text \<open>
  \<open>argparse.FileType('rb')\<close> turns the argument \<open>-\<close> into the standard input stream
  and any other argument into a file opened for binary reading. Both objects carry a
  \<open>name\<close> attribute.
\<close>

datatype stream = Stdin | OpenedFile string

fun name :: "stream \<Rightarrow> string" where
  "name Stdin = ''<stdin>''"
| "name (OpenedFile p) = p"

record opts =
  annotate :: bool
  contour :: "real list option"
  colorbar :: bool
  radec :: "(real \<times> real) list"
  inj_database :: "string option"
  geo :: bool
  input :: stream

text \<open>
  The command line, split into the occurrences of the arguments that \<open>parser()\<close>
  declares. The numbers are already converted by \<open>type=float\<close>. The options that
  \<open>command.figure_parser\<close> adds are not part of this file; of them only the call
  \<open>opts.output()\<close> is used, and its outcome is a parameter.
\<close>

datatype cli_arg =
    Arg_annotate
  | Arg_contour "real list"
  | Arg_colorbar
  | Arg_radec "real list"
  | Arg_inj_database string
  | Arg_geo
  | Arg_input string

subsection \<open>Library calls recorded in the trace\<close>

text \<open>
  One constructor per library call that draws, reads or writes, with the arguments the
  script passes. The drawing calls (\<open>plt.axes\<close>, \<open>ax.grid\<close>, \<open>imshow_hpx\<close>,
  \<open>plot.colorbar\<close>, \<open>contour_hpx\<close>, \<open>plt.clabel\<close>, \<open>plt.plot\<close>, \<open>plot_coord\<close>,
  \<open>outline_text\<close>, \<open>ax.text\<close>) are taken to return normally; the calls that read or
  write take their outcome from \<open>libs\<close> below.
\<close>

datatype event =
    Open string string
  | SQLiteOpen string
  | ReadSkyMap string
  | Axes string string
  | Grid
  | ImshowHpx "real list" string pyval real real
  | Colorbar
  | SetLabel string
  | ContourHpx "real list" string pyval string real "real list"
  | Clabel string nat bool
  | LoadJson string
  | Plot "real list list" string real
  | Execute string string pyval
  | PlotCoord real real string string string string nat
  | OutlineText
  | AxText real real string string
  | Output

subsection \<open>The libraries the script calls\<close>

text \<open>
  None of the libraries is part of the file under verification, so the value-returning
  calls are parameters. Each may raise.
  \<^item> \<open>can_open\<close>: whether \<open>open(name, 'rb')\<close> succeeds (\<open>argparse.FileType\<close>);
  \<^item> \<open>sqlite_type_r\<close>: \<open>command.SQLiteType('r')\<close> applied to a file name;
  \<^item> \<open>read_sky_map\<close>: \<open>fits.read_sky_map(name, nest=None)\<close>;
  \<^item> \<open>npix2nside\<close>, \<open>nside2pixarea\<close>: the \<open>healpy\<close> functions, the latter with
    \<open>degrees=True\<close>;
  \<^item> \<open>gps_to_utc_isot\<close>: \<open>Time(t, format='gps').utc.isot\<close>;
  \<^item> \<open>find_greedy_credible_levels\<close>: \<open>postprocess.find_greedy_credible_levels\<close>;
  \<^item> \<open>usetex\<close>: \<open>rcParams['text.usetex']\<close>;
  \<^item> \<open>plot_file\<close>: \<open>plot.__file__\<close>;
  \<^item> \<open>load_geometries\<close>: \<open>json.load(f)['geometries']\<close> of the named file, each
    geometry given by its list of coordinate pairs;
  \<^item> \<open>execute\<close>: \<open>connection.execute(query, (param,)).fetchall()\<close>;
  \<^item> \<open>repr_float\<close>: the text of a float under \<open>'{}'.format\<close>;
  \<^item> \<open>opts_output\<close>: \<open>opts.output()\<close>, supplied by \<open>command.figure_parser\<close>.
\<close>

record libs =
  can_open :: "string \<Rightarrow> bool"
  sqlite_type_r :: "string \<Rightarrow> py_error + string"
  read_sky_map :: "string \<Rightarrow> py_error + (real list \<times> metadata)"
  npix2nside :: "nat \<Rightarrow> py_error + nat"
  nside2pixarea :: "nat \<Rightarrow> py_error + real"
  gps_to_utc_isot :: "pyval \<Rightarrow> py_error + string"
  find_greedy_credible_levels :: "real list \<Rightarrow> py_error + real list"
  usetex :: bool
  plot_file :: string
  load_geometries :: "string \<Rightarrow> py_error + (real \<times> real) list list"
  execute :: "string \<Rightarrow> string \<Rightarrow> pyval \<Rightarrow> py_error + (real \<times> real) list"
  repr_float :: "real \<Rightarrow> string"
  opts_output :: "py_error option"

subsection \<open>Sequencing calls that may raise\<close>

text \<open>
  A run is the list of calls made so far and either the exception raised or a value.
  \<open>seq\<close> is Python's statement sequencing: the second part runs only when the first
  returned, and the calls of both are kept in order. \<open>returned\<close> takes the outcome of
  a call that leaves no entry in the trace, \<open>call_with\<close> that of a call that does.
\<close>

type_synonym 'a run = "event list \<times> (py_error + 'a)"

definition ret :: "'a \<Rightarrow> 'a run" where
  "ret a = ([], Inr a)"

definition raise :: "py_error \<Rightarrow> 'a run" where
  "raise e = ([], Inl e)"

definition returned :: "(py_error + 'a) \<Rightarrow> 'a run" where
  "returned r = ([], r)"

definition call :: "event \<Rightarrow> unit run" where
  "call ev = ([ev], Inr ())"

definition call_with :: "event \<Rightarrow> (py_error + 'a) \<Rightarrow> 'a run" where
  "call_with ev r = ([ev], r)"

definition seq :: "'a run \<Rightarrow> ('a \<Rightarrow> 'b run) \<Rightarrow> 'b run" where
  "seq m f =
     (case m of
        (tr, Inl e) \<Rightarrow> (tr, Inl e)
      | (tr, Inr a) \<Rightarrow> (case f a of (tr', r) \<Rightarrow> (tr @ tr', r)))"

text \<open>A run that starts after the calls \<open>tr\<close> have been made.\<close>

definition after :: "event list \<Rightarrow> 'a run \<Rightarrow> 'a run" where
  "after tr m = (tr @ fst m, snd m)"

definition lookup :: "metadata \<Rightarrow> string \<Rightarrow> pyval run" where
  "lookup md k = (case md k of None \<Rightarrow> raise (KeyError k) | Some v \<Rightarrow> ret v)"

subsection \<open>Python and numpy primitives\<close>

text \<open>The format \<open>{:d}\<close> of an integer, and \<open>'{}'.format\<close> of a metadata value.\<close>

definition digit :: "nat \<Rightarrow> char" where
  "digit d = ''0123456789'' ! d"

fun decimal :: "nat \<Rightarrow> string" where
  "decimal n = (if n < 10 then [digit n] else decimal (n div 10) @ [digit (n mod 10)])"

declare decimal.simps [simp del]

definition format_d :: "int \<Rightarrow> string" where
  "format_d i = (if i < 0 then CHR ''-'' # decimal (nat (- i)) else decimal (nat i))"

definition format_obj :: "libs \<Rightarrow> pyval \<Rightarrow> string" where
  "format_obj env v =
     (case v of
        PyInt i \<Rightarrow> format_d i
      | PyFloat x \<Rightarrow> repr_float env x
      | PyStr s \<Rightarrow> s
      | PyBool b \<Rightarrow> (if b then ''True'' else ''False''))"

text \<open>\<open>sep.join(parts)\<close>.\<close>

fun join :: "string \<Rightarrow> string list \<Rightarrow> string" where
  "join sep [] = []"
| "join sep [x] = x"
| "join sep (x # y # ys) = x @ sep @ join sep (y # ys)"

text \<open>\<open>os.path.dirname\<close> and \<open>os.path.join\<close> on POSIX paths.\<close>

definition dirname :: "string \<Rightarrow> string" where
  "dirname p =
     (let hd_part = rev (dropWhile (\<lambda>c. c \<noteq> CHR ''/'') (rev p));
          stripped = rev (dropWhile (\<lambda>c. c = CHR ''/'') (rev hd_part))
      in if stripped = [] then hd_part else stripped)"

definition path_join :: "string \<Rightarrow> string \<Rightarrow> string" where
  "path_join a b =
     (if b \<noteq> [] \<and> hd b = CHR ''/'' then b
      else if a = [] \<or> last a = CHR ''/'' then a @ b
      else a @ ''/'' @ b)"

text \<open>
  \<open>numpy.round\<close> of a float: the nearest whole number, a half going to the even
  neighbour.
\<close>

definition round_half_even :: "real \<Rightarrow> int" where
  "round_half_even x =
     (let f = \<lfloor>x\<rfloor>; d = x - of_int f
      in if d < 1 / 2 then f
         else if 1 / 2 < d then f + 1
         else if even f then f else f + 1)"

text \<open>
  \<open>astype(int)\<close> of a whole float: the cast to a 64-bit integer. A value outside the
  range of that type comes out as the least 64-bit integer, as \<open>numpy\<close> gives it.
\<close>

definition astype_int :: "int \<Rightarrow> int" where
  "astype_int r = (if - (2 ^ 63) \<le> r \<and> r < 2 ^ 63 then r else - (2 ^ 63))"

text \<open>\<open>np.round(x).astype(int)\<close>, as lines 151 to 153 write it.\<close>

definition np_round :: "real \<Rightarrow> int" where
  "np_round x = astype_int (round_half_even x)"

text \<open>
  \<open>numpy.searchsorted(a, v)\<close> with the default \<open>side='left'\<close>: on an ascending array,
  the first index whose element is not below \<open>v\<close>.
\<close>

definition searchsorted :: "real list \<Rightarrow> real \<Rightarrow> nat" where
  "searchsorted a v = length (takeWhile (\<lambda>x. x < v) a)"

text \<open>\<open>numpy.rad2deg\<close>.\<close>

definition rad2deg :: "real \<Rightarrow> real" where
  "rad2deg x = x * (180 / pi)"

text \<open>
  \<open>ndarray.max()\<close>: raises on an empty array. The quotient \<open>skymap / deg2perpix\<close>
  of \<open>main\<close> is the elementwise quotient of reals; where \<open>numpy\<close> would give
  infinities for a zero divisor the model has no counterpart, and the properties
  below that speak of the quotient assume a non-zero pixel area.
\<close>

definition array_max :: "real list \<Rightarrow> py_error + real" where
  "array_max xs =
     (case xs of
        [] \<Rightarrow> Inl (ValueError ''zero-size array to reduction operation maximum which has no identity'')
      | y # ys \<Rightarrow> Inr (fold max ys y))"

text \<open>\<open>zip(*coordinates)\<close> for a list of coordinate pairs.\<close>

definition zip_star :: "(real \<times> real) list \<Rightarrow> real list list" where
  "zip_star cs = (if cs = [] then [] else [map fst cs, map snd cs])"

text \<open>The target \<open>(ra, dec), = rows\<close>: exactly one row is accepted.\<close>

definition unpack_single :: "(real \<times> real) list \<Rightarrow> py_error + (real \<times> real)" where
  "unpack_single rows =
     (case rows of
        [] \<Rightarrow> Inl (ValueError ''not enough values to unpack (expected 1, got 0)'')
      | [r] \<Rightarrow> Inr r
      | _ # _ # _ \<Rightarrow> Inl (ValueError ''too many values to unpack (expected 1)''))"

section \<open>The argument parser\<close>

text \<open>
  \<open>argparse.FileType('rb')\<close>, the \<open>type\<close> of the positional argument. A file that
  cannot be opened makes \<open>argparse\<close> print a usage error and exit with status 2.
\<close>

definition file_type_rb :: "libs \<Rightarrow> string \<Rightarrow> stream run" where
  "file_type_rb env s =
     (if s = ''-'' then ret Stdin
      else call_with (Open s ''rb'')
             (if can_open env s then Inr (OpenedFile s) else Inl (SystemExit 2)))"

text \<open>
  The defaults declared by \<open>parser()\<close>. The positional \<open>input\<close> has the default string
  \<open>-\<close>; it is converted by \<open>file_type_rb\<close> when the command line has no positional
  (see \<open>parse_args\<close>), so the field holds a placeholder until then.
\<close>

definition input_default :: string where
  "input_default = ''-''"

definition parser_defaults :: opts where
  "parser_defaults =
     \<lparr>annotate = False, contour = None, colorbar = False, radec = [],
      inj_database = None, geo = False, input = Stdin\<rparr>"

text \<open>
  One occurrence of an argument: \<open>store_true\<close> for the flags, \<open>nargs='+'\<close> (at least
  one value, the last occurrence wins) for \<open>--contour\<close>, \<open>nargs=2\<close> with
  \<open>action='append'\<close> for \<open>--radec\<close>, and \<open>nargs='?'\<close> for the positional, which can
  be given once. The flag beside the namespace records whether the positional was seen.
\<close>

fun parse_arg :: "libs \<Rightarrow> opts \<times> bool \<Rightarrow> cli_arg \<Rightarrow> (opts \<times> bool) run" where
  "parse_arg env (ns, seen) Arg_annotate = ret (ns\<lparr>annotate := True\<rparr>, seen)"
| "parse_arg env (ns, seen) (Arg_contour ps) =
     (if ps = [] then raise (SystemExit 2) else ret (ns\<lparr>contour := Some ps\<rparr>, seen))"
| "parse_arg env (ns, seen) Arg_colorbar = ret (ns\<lparr>colorbar := True\<rparr>, seen)"
| "parse_arg env (ns, seen) (Arg_radec vs) =
     (case vs of
        [ra, dec] \<Rightarrow> ret (ns\<lparr>radec := radec ns @ [(ra, dec)]\<rparr>, seen)
      | _ \<Rightarrow> raise (SystemExit 2))"
| "parse_arg env (ns, seen) (Arg_inj_database f) =
     seq (call_with (SQLiteOpen f) (sqlite_type_r env f))
       (\<lambda>db. ret (ns\<lparr>inj_database := Some db\<rparr>, seen))"
| "parse_arg env (ns, seen) Arg_geo = ret (ns\<lparr>geo := True\<rparr>, seen)"
| "parse_arg env (ns, seen) (Arg_input s) =
     (if seen then raise (SystemExit 2)
      else seq (file_type_rb env s) (\<lambda>f. ret (ns\<lparr>input := f\<rparr>, True)))"

fun parse_all :: "libs \<Rightarrow> opts \<times> bool \<Rightarrow> cli_arg list \<Rightarrow> (opts \<times> bool) run" where
  "parse_all env st [] = ret st"
| "parse_all env st (a # as) = seq (parse_arg env st a) (\<lambda>st'. parse_all env st' as)"

definition parse_args :: "libs \<Rightarrow> cli_arg list \<Rightarrow> opts run" where
  "parse_args env argv =
     seq (parse_all env (parser_defaults, False) argv)
       (\<lambda>(ns, seen).
          if seen then ret ns
          else seq (file_type_rb env input_default) (\<lambda>f. ret (ns\<lparr>input := f\<rparr>)))"

section \<open>The program\<close>

text \<open>The SQL text of lines 123 to 128, with its line breaks and indentation.\<close>

definition query :: string where
  "query =
     ''SELECT DISTINCT longitude, latitude FROM sim_inspiral AS si'' @ [CHR 0x0A] @
     ''                   INNER JOIN coinc_event_map AS cm1'' @ [CHR 0x0A] @
     ''                   ON (si.simulation_id = cm1.event_id)'' @ [CHR 0x0A] @
     ''                   INNER JOIN coinc_event_map AS cm2'' @ [CHR 0x0A] @
     ''                   ON (cm1.coinc_event_id = cm2.coinc_event_id)'' @ [CHR 0x0A] @
     ''                   WHERE cm2.event_id = ?''"

text \<open>The marker loop: one \<open>ax.plot_coord\<close> call per pair, in order.\<close>

fun plot_coords :: "(real \<times> real) list \<Rightarrow> unit run" where
  "plot_coords [] = ret ()"
| "plot_coords ((ra, dec) # rest) =
     seq (call (PlotCoord ra dec ''deg'' ''*'' ''white'' ''black'' 10)) (\<lambda>_. plot_coords rest)"

text \<open>One line of the annotation: \<open>'{:d}% area: {:d} deg\<^sup>2'.format(p, i)\<close>.\<close>

definition area_line :: "int \<Rightarrow> int \<Rightarrow> string" where
  "area_line p i = format_d p @ ''% area: '' @ format_d i @ '' deg'' @ [CHR 0xB2]"

text \<open>
  \<open>main\<close> is one straight-line function. Its blocks, which the source sets apart by
  comments, are given names here and composed by \<open>main\<close> in the order of the source.
\<close>

text \<open>Lines 97 to 100, \<open># Add colorbar.\<close>\<close>

definition add_colorbar :: "opts \<Rightarrow> unit run" where
  "add_colorbar opts =
     (if colorbar opts
      then seq (call Colorbar) (\<lambda>_. call (SetLabel ''prob. per deg$^2$''))
      else ret ())"

text \<open>
  Lines 102 to 109, \<open># Add contours.\<close> The test \<open>if opts.contour\<close> holds for a
  non-empty list. The block leaves the variable \<open>cls\<close> bound only when it runs.
\<close>

definition add_contours :: "libs \<Rightarrow> opts \<Rightarrow> real list \<Rightarrow> metadata \<Rightarrow> real list option run" where
  "add_contours env opts skymap metadata =
     (case contour opts of
        None \<Rightarrow> ret None
      | Some levels \<Rightarrow>
          if levels = [] then ret None
          else
            seq (returned (find_greedy_credible_levels env skymap)) (\<lambda>levs.
            let cls = map (\<lambda>x. 100 * x) levs in
            seq (lookup metadata ''nest'') (\<lambda>nest.
            seq (call (ContourHpx cls ''ICRS'' nest ''k'' (1 / 2) levels)) (\<lambda>_.
            let fmt = (if usetex env then ''%g'' @ [CHR 0x5C] @ ''%%'' else ''%g%%'') in
            seq (call (Clabel fmt 6 True)) (\<lambda>_.
            ret (Some cls))))))"

text \<open>Lines 111 to 119, \<open># Add continents.\<close>\<close>

definition add_continents :: "libs \<Rightarrow> opts \<Rightarrow> unit run" where
  "add_continents env opts =
     (if geo opts
      then
        let geojson_filename =
              path_join (dirname (plot_file env)) ''ne_simplified_coastline.json'' in
        seq (call_with (LoadJson geojson_filename) (load_geometries env geojson_filename))
          (\<lambda>geoms.
        let verts = concat (map zip_star geoms) in
        call (Plot verts ''0.5'' (1 / 2)))
      else ret ())"

text \<open>
  Lines 121 to 131: the list \<open>radecs\<close> of marker positions. With \<open>--inj-database\<close>
  the argument \<open>metadata['objid']\<close> is evaluated before \<open>execute\<close> is called.
\<close>

definition marker_positions :: "libs \<Rightarrow> opts \<Rightarrow> metadata \<Rightarrow> (real \<times> real) list run" where
  "marker_positions env opts metadata =
     (case inj_database opts of
        None \<Rightarrow> ret (radec opts)
      | Some db \<Rightarrow>
          seq (lookup metadata ''objid'') (\<lambda>objid.
          seq (call_with (Execute db query objid) (execute env db query objid)) (\<lambda>rows.
          seq (returned (unpack_single rows)) (\<lambda>(ra, dec).
          ret (radec opts @ [(rad2deg ra, rad2deg dec)])))))"

text \<open>
  Lines 142 to 158: the annotation. \<open>try: ... except KeyError: pass\<close> around the
  lookup of \<open>objid\<close> turns a \<open>KeyError\<close> into an empty start of the text.
\<close>

definition annotation :: "libs \<Rightarrow> opts \<Rightarrow> metadata \<Rightarrow> real list option \<Rightarrow> real \<Rightarrow> unit run" where
  "annotation env opts metadata cls deg2perpix =
     (if annotate opts
      then
        seq (case lookup metadata ''objid'' of
               (tr, Inl (KeyError k)) \<Rightarrow> (tr, Inr [])
             | (tr, Inl e) \<Rightarrow> (tr, Inl e)
             | (tr, Inr objid) \<Rightarrow> (tr, Inr [''event ID: '' @ format_obj env objid]))
          (\<lambda>text.
        seq (case contour opts of
               None \<Rightarrow> ret text
             | Some levels \<Rightarrow>
                 if levels = [] then ret text
                 else
                   (case cls of
                      None \<Rightarrow> raise (UnboundLocalError ''cls'')
                    | Some cls \<Rightarrow>
                        let pp = map np_round levels;
                            ii = map (\<lambda>p. np_round (real (searchsorted (sort cls) p) *
                                                     deg2perpix)) levels
                        in ret (text @ map (\<lambda>(i, p). area_line p i) (zip ii pp))))
          (\<lambda>text.
        call (AxText 1 1 (join [CHR 0x0A] text) ''right'')))
      else ret ())"

definition main :: "libs \<Rightarrow> cli_arg list \<Rightarrow> unit run" where
  "main env argv =
     seq (parse_args env argv) (\<lambda>opts.
     seq (call_with (ReadSkyMap (name (input opts))) (read_sky_map env (name (input opts))))
       (\<lambda>(skymap, metadata).
     seq (returned (npix2nside env (length skymap))) (\<lambda>nside.
     seq (returned (nside2pixarea env nside)) (\<lambda>deg2perpix.
     let probperdeg2 = map (\<lambda>x. x / deg2perpix) skymap in
     seq (lookup metadata ''gps_time'') (\<lambda>gps_time.
     seq (returned (gps_to_utc_isot env gps_time)) (\<lambda>obstime.
     seq (call (Axes (if geo opts then ''geo degrees mollweide''
                      else ''astro hours mollweide'') obstime)) (\<lambda>_.
     seq (call Grid) (\<lambda>_.
     seq (returned (array_max probperdeg2)) (\<lambda>vmax.
     seq (lookup metadata ''nest'') (\<lambda>nest.
     seq (call (ImshowHpx probperdeg2 ''ICRS'' nest 0 vmax)) (\<lambda>_.
     seq (add_colorbar opts) (\<lambda>_.
     seq (add_contours env opts skymap metadata) (\<lambda>cls.
     seq (add_continents env opts) (\<lambda>_.
     seq (marker_positions env opts metadata) (\<lambda>radecs.
     seq (plot_coords radecs) (\<lambda>_.
     seq (call OutlineText) (\<lambda>_.
     seq (annotation env opts metadata cls deg2perpix) (\<lambda>_.
     call_with Output (case opts_output env of None \<Rightarrow> Inr () | Some e \<Rightarrow> Inl e)
     ))))))))))))))))))"

section \<open>Reading a trace\<close>

text \<open>
  What a trace says about one kind of call: the projections of the axes created, the
  arrays drawn, the levels contoured and the formats of their labels, the markers, the
  annotation texts, the sky maps read, the files opened and the queries executed.
\<close>

definition projections :: "event list \<Rightarrow> string list" where
  "projections tr = concat (map (\<lambda>ev. case ev of Axes p t \<Rightarrow> [p] | _ \<Rightarrow> []) tr)"

definition imshow_arrays :: "event list \<Rightarrow> real list list" where
  "imshow_arrays tr =
     concat (map (\<lambda>ev. case ev of ImshowHpx arr fr ne lo hi \<Rightarrow> [arr] | _ \<Rightarrow> []) tr)"

definition labelled_levels :: "event list \<Rightarrow> real list list" where
  "labelled_levels tr =
     concat (map (\<lambda>ev. case ev of ContourHpx c fr ne col lw levels \<Rightarrow> [levels] | _ \<Rightarrow> []) tr)"

definition label_formats :: "event list \<Rightarrow> string list" where
  "label_formats tr =
     concat (map (\<lambda>ev. case ev of Clabel fmt sz inl \<Rightarrow> [fmt] | _ \<Rightarrow> []) tr)"

text \<open>
  The markers: position, unit and marker symbol of every \<open>plot_coord\<close> call.
\<close>

definition markers :: "event list \<Rightarrow> (real \<times> real \<times> string \<times> string) list" where
  "markers tr =
     concat (map (\<lambda>ev. case ev of PlotCoord ra dec u m fc ec sz \<Rightarrow> [(ra, dec, u, m)]
                          | _ \<Rightarrow> []) tr)"

definition annotation_texts :: "event list \<Rightarrow> string list" where
  "annotation_texts tr =
     concat (map (\<lambda>ev. case ev of AxText x y s ha \<Rightarrow> [s] | _ \<Rightarrow> []) tr)"

definition sky_maps_read :: "event list \<Rightarrow> string list" where
  "sky_maps_read tr =
     concat (map (\<lambda>ev. case ev of ReadSkyMap n \<Rightarrow> [n] | _ \<Rightarrow> []) tr)"

definition files_opened :: "event list \<Rightarrow> (string \<times> string) list" where
  "files_opened tr =
     concat (map (\<lambda>ev. case ev of Open n mode \<Rightarrow> [(n, mode)] | _ \<Rightarrow> []) tr)"

definition queries_executed :: "event list \<Rightarrow> (string \<times> string \<times> pyval) list" where
  "queries_executed tr =
     concat (map (\<lambda>ev. case ev of Execute db q v \<Rightarrow> [(db, q, v)] | _ \<Rightarrow> []) tr)"

section \<open>Reading a command line\<close>

text \<open>The \<open>--radec\<close> pairs of a command line, in the order given.\<close>

definition radec_args :: "cli_arg list \<Rightarrow> (real \<times> real) list" where
  "radec_args argv =
     concat (map (\<lambda>a. case a of Arg_radec [ra, dec] \<Rightarrow> [(ra, dec)] | _ \<Rightarrow> []) argv)"

definition inj_given :: "cli_arg list \<Rightarrow> bool" where
  "inj_given argv = list_ex (\<lambda>a. case a of Arg_inj_database f \<Rightarrow> True | _ \<Rightarrow> False) argv"

definition positionals :: "cli_arg list \<Rightarrow> string list" where
  "positionals argv = concat (map (\<lambda>a. case a of Arg_input s \<Rightarrow> [s] | _ \<Rightarrow> []) argv)"

text \<open>What a successful \<open>file_type_rb\<close> returns for an argument, and what it opens.\<close>

definition stream_of :: "string \<Rightarrow> stream" where
  "stream_of s = (if s = ''-'' then Stdin else OpenedFile s)"

definition opened_for :: "string \<Rightarrow> (string \<times> string) list" where
  "opened_for s = (if s = ''-'' then [] else [(s, ''rb'')])"

text \<open>The calls made while parsing: opening the input file and the database.\<close>

definition parse_event :: "event \<Rightarrow> bool" where
  "parse_event ev = (case ev of Open n m \<Rightarrow> True | SQLiteOpen n \<Rightarrow> True | _ \<Rightarrow> False)"

text \<open>The calls made after the sky map has been drawn.\<close>

definition later_event :: "event \<Rightarrow> bool" where
  "later_event ev =
     (case ev of
        Open n m \<Rightarrow> False | SQLiteOpen n \<Rightarrow> False | ReadSkyMap n \<Rightarrow> False
      | Axes p t \<Rightarrow> False | Grid \<Rightarrow> False | ImshowHpx a f n lo hi \<Rightarrow> False
      | _ \<Rightarrow> True)"

text \<open>A star marker in degrees, as \<open>main\<close> plots it.\<close>

definition star :: "real \<times> real \<Rightarrow> real \<times> real \<times> string \<times> string" where
  "star pos = (fst pos, snd pos, ''deg'', ''*'')"

text \<open>The first line of the annotation, present when the metadata has \<open>objid\<close>.\<close>

definition event_id_text :: "libs \<Rightarrow> metadata \<Rightarrow> string list" where
  "event_id_text env metadata =
     (case metadata ''objid'' of
        None \<Rightarrow> []
      | Some objid \<Rightarrow> [''event ID: '' @ format_obj env objid])"

text \<open>The calls of \<open>main\<close> from reading the sky map to drawing it.\<close>

definition drawn_map :: "opts \<Rightarrow> real list \<Rightarrow> real \<Rightarrow> string \<Rightarrow> real \<Rightarrow> pyval \<Rightarrow> event list" where
  "drawn_map opts skymap area obstime vmax nest =
     [ReadSkyMap (name (input opts)),
      Axes (if geo opts then ''geo degrees mollweide'' else ''astro hours mollweide'') obstime,
      Grid,
      ImshowHpx (map (\<lambda>x. x / area) skymap) ''ICRS'' nest 0 vmax]"

section \<open>A concrete installation, for running the program\<close>

text \<open>
  A twelve-pixel sky map (HEALPix resolution 1) with a pixel area of 3437.75 square
  degrees and an event of identifier 7, stored in \<open>map.fits\<close>; variants of the file
  whose metadata lacks a key or names another event; and an injection database with
  one row for event 7, none for event 8 and two for event 9.
\<close>

definition demo_skymap :: "real list" where
  "demo_skymap = [1/2, 1/5, 1/10, 1/20, 1/20, 1/25, 3/100, 1/100, 1/100, 1/200, 1/200, 0]"

definition demo_metadata :: metadata where
  "demo_metadata =
     [''gps_time'' \<mapsto> PyFloat 1126259462, ''nest'' \<mapsto> PyBool False, ''objid'' \<mapsto> PyInt 7]"

definition demo_files :: "(string \<times> metadata) list" where
  "demo_files =
     [(''map.fits'', demo_metadata),
      (''<stdin>'', demo_metadata),
      (''bare.fits'', demo_metadata(''objid'' := None)),
      (''other.fits'', demo_metadata(''objid'' \<mapsto> PyInt 8)),
      (''twin.fits'', demo_metadata(''objid'' \<mapsto> PyInt 9)),
      (''notime.fits'', demo_metadata(''gps_time'' := None)),
      (''noorder.fits'', demo_metadata(''nest'' := None))]"

definition demo_libs :: libs where
  "demo_libs =
     \<lparr>can_open = (\<lambda>n. map_of demo_files n \<noteq> None),
      sqlite_type_r = (\<lambda>n. if n = ''inj.sqlite'' then Inr n else Inl (SystemExit 2)),
      read_sky_map = (\<lambda>n. case map_of demo_files n of
                             Some md \<Rightarrow> Inr (demo_skymap, md)
                           | None \<Rightarrow> Inl (OtherError ''FileNotFoundError'')),
      npix2nside = (\<lambda>n. if n = 12 then Inr 1
                         else Inl (ValueError ''Wrong pixel number (it is not 12*nside**2)'')),
      nside2pixarea = (\<lambda>n. if n = 0 then Inl (OtherError ''ZeroDivisionError'')
                            else Inr (13751 / (4 * real (n * n)))),
      gps_to_utc_isot = (\<lambda>t. Inr ''2015-09-14T09:50:45.000''),
      find_greedy_credible_levels =
        (\<lambda>m. Inr (map (\<lambda>p. sum_list (filter (\<lambda>q. p \<le> q) m)) m)),
      usetex = False,
      plot_file = ''/usr/lib/ligo/skymap/plot/__init__.py'',
      load_geometries = (\<lambda>n. Inr [[(0, 0), (10, 5)], [(20, 30), (25, 35), (30, 40)]]),
      execute = (\<lambda>db q v. if v = PyInt 7 then Inr [(pi, pi / 6)]
                           else if v = PyInt 9 then Inr [(0, 0), (1, 1)]
                           else Inr []),
      repr_float = (\<lambda>x. ''float''),
      opts_output = None\<rparr>"

text \<open>
  The same installation with a reader that opens the file it is given by name, as a
  reader of file names does: there is no file named \<open><stdin>\<close>.
\<close>

definition file_libs :: libs where
  "file_libs =
     demo_libs\<lparr>read_sky_map :=
       (\<lambda>n. if n = ''<stdin>'' then Inl (OtherError ''FileNotFoundError'')
             else read_sky_map demo_libs n)\<rparr>"

section \<open>Sequencing, parsing and the blocks of \<open>main\<close>\<close>

subsection \<open>Sequencing\<close>

lemmas run_defs = ret_def raise_def returned_def call_def call_with_def lookup_def

lemma seq_Inl [simp]: "seq (tr, Inl e) f = (tr, Inl e)" by (simp add: seq_def)
lemma seq_Inr [simp]: "seq (tr, Inr a) f = after tr (f a)" by (simp add: seq_def after_def split: prod.splits)
lemma seq_after [simp]: "seq (after tr m) f = after tr (seq m f)"
  by (cases m) (auto simp: seq_def after_def split: sum.splits prod.splits)
lemma after_after [simp]: "after tr (after tr' m) = after (tr @ tr') m" by (simp add: after_def)
lemma after_Nil [simp]: "after [] m = m" by (simp add: after_def)
lemma fst_after [simp]: "fst (after tr m) = tr @ fst m" by (simp add: after_def)
lemma snd_after [simp]: "snd (after tr m) = snd m" by (simp add: after_def)
lemma after_pair [simp]: "after tr (tr', r) = (tr @ tr', r)" by (simp add: after_def)

lemma fst_seq: "fst (seq m f) = fst m @ (case snd m of Inl e \<Rightarrow> [] | Inr a \<Rightarrow> fst (f a))"
  by (cases m) (auto simp: seq_def split: sum.splits prod.splits)
lemma snd_seq: "snd (seq m f) = (case snd m of Inl e \<Rightarrow> Inl e | Inr a \<Rightarrow> snd (f a))"
  by (cases m) (auto simp: seq_def split: sum.splits prod.splits)

subsection \<open>The parser\<close>

lemma parse_arg_events: "list_all parse_event (fst (parse_arg env st a))"
  by (cases "(env, st, a)" rule: parse_arg.cases)
     (auto simp: run_defs fst_seq file_type_rb_def parse_event_def split: list.splits sum.splits)

lemma parse_all_events: "list_all parse_event (fst (parse_all env st args))"
  by (induction args arbitrary: st) (auto simp: run_defs fst_seq parse_arg_events split: sum.splits)

lemma parse_args_events: "list_all parse_event (fst (parse_args env argv))"
  by (auto simp: parse_args_def fst_seq parse_all_events run_defs file_type_rb_def input_default_def split: sum.splits)

lemma seq_eq_InrD:
  "seq m f = (tr, Inr b) \<Longrightarrow> \<exists>tr1 a tr2. m = (tr1, Inr a) \<and> f a = (tr2, Inr b) \<and> tr = tr1 @ tr2"
  by (cases m) (auto simp: seq_def split: sum.splits prod.splits)

lemma file_type_rb_InrD:
  "file_type_rb env s = (tr, Inr f) \<Longrightarrow> f = stream_of s \<and> files_opened tr = opened_for s"
  by (auto simp: file_type_rb_def run_defs stream_of_def opened_for_def files_opened_def split: if_splits)

lemma parse_arg_step:
  assumes "parse_arg env (ns, seen) a = (tr, Inr (ns', seen'))"
  shows "geo ns' = (geo ns \<or> a = Arg_geo)"
    and "radec ns' = radec ns @ radec_args [a]"
    and "(inj_database ns' = None) = (inj_database ns = None \<and> \<not> inj_given [a])"
    and "seen' = (seen \<or> positionals [a] \<noteq> [])"
    and "positionals [a] = [] \<Longrightarrow> input ns' = input ns \<and> files_opened tr = []"
    and "positionals [a] \<noteq> [] \<Longrightarrow>
           \<not> seen \<and> input ns' = stream_of (hd (positionals [a])) \<and>
           files_opened tr = opened_for (hd (positionals [a]))"
  using assms
  by (cases "(env, (ns, seen), a)" rule: parse_arg.cases;
      auto simp: run_defs radec_args_def inj_given_def positionals_def files_opened_def
           dest!: seq_eq_InrD file_type_rb_InrD split: list.splits if_splits)+

lemma radec_args_Cons: "radec_args (a # args) = radec_args [a] @ radec_args args"
  by (simp add: radec_args_def)
lemma inj_given_Cons: "inj_given (a # args) = (inj_given [a] \<or> inj_given args)"
  by (simp add: inj_given_def)
lemma positionals_Cons: "positionals (a # args) = positionals [a] @ positionals args"
  by (simp add: positionals_def)
lemma files_opened_append: "files_opened (a @ b) = files_opened a @ files_opened b"
  by (simp add: files_opened_def)

lemma parse_all_fields:
  assumes "parse_all env (ns, seen) args = (tr, Inr (ns', seen'))"
  shows "geo ns' = (geo ns \<or> Arg_geo \<in> set args)
       \<and> radec ns' = radec ns @ radec_args args
       \<and> (inj_database ns' = None) = (inj_database ns = None \<and> \<not> inj_given args)
       \<and> seen' = (seen \<or> positionals args \<noteq> [])
       \<and> (positionals args = [] \<longrightarrow> input ns' = input ns \<and> files_opened tr = [])
       \<and> (positionals args \<noteq> [] \<longrightarrow> \<not> seen \<and> length (positionals args) = 1 \<and>
             input ns' = stream_of (hd (positionals args)) \<and>
             files_opened tr = opened_for (hd (positionals args)))"
  using assms
proof (induction args arbitrary: ns seen tr)
  case Nil
  then show ?case
    by (simp add: run_defs radec_args_def inj_given_def positionals_def files_opened_def)
next
  case (Cons a args)
  from Cons.prems obtain tr1 ns1 seen1 tr2 where
    step: "parse_arg env (ns, seen) a = (tr1, Inr (ns1, seen1))"
    and rest: "parse_all env (ns1, seen1) args = (tr2, Inr (ns', seen'))"
    and tr: "tr = tr1 @ tr2"
    by (auto dest!: seq_eq_InrD)
  note s = parse_arg_step[OF step]
  note ih = Cons.IH[OF rest]
  show ?case
  proof (cases "positionals [a] = []")
    case True
    with s ih tr show ?thesis
      by (auto simp: radec_args_Cons[of a args] inj_given_Cons[of a args]
            positionals_Cons[of a args] files_opened_append)
  next
    case False
    then obtain s0 where one: "positionals [a] = [s0]"
      by (cases a) (auto simp: positionals_def)
    from False s have seen1 by simp
    with ih have noargs: "positionals args = []" by auto
    from s ih tr one noargs show ?thesis
      by (auto simp: radec_args_Cons[of a args] inj_given_Cons[of a args]
            positionals_Cons[of a args] files_opened_append)
  qed
qed

lemma parse_args_fields:
  assumes "parse_args env argv = (tr, Inr opts)"
  shows "geo opts = (Arg_geo \<in> set argv)
       \<and> radec opts = radec_args argv
       \<and> (inj_database opts = None) = (\<not> inj_given argv)
       \<and> (positionals argv = [] \<longrightarrow> input opts = Stdin \<and> files_opened tr = [])
       \<and> (positionals argv \<noteq> [] \<longrightarrow> length (positionals argv) = 1 \<and>
             input opts = stream_of (hd (positionals argv)) \<and>
             files_opened tr = opened_for (hd (positionals argv)))"
proof -
  from assms obtain tr1 ns seen tr2 where
    all: "parse_all env (parser_defaults, False) argv = (tr1, Inr (ns, seen))"
    and fin: "(if seen then ret ns
               else seq (file_type_rb env input_default) (\<lambda>f. ret (ns\<lparr>input := f\<rparr>))) = (tr2, Inr opts)"
    and tr: "tr = tr1 @ tr2"
    unfolding parse_args_def by (auto dest!: seq_eq_InrD)
  note f = parse_all_fields[OF all]
  show ?thesis
  proof (cases seen)
    case True
    with fin have "opts = ns" "tr2 = []" by (auto simp: run_defs)
    with f True tr show ?thesis by (auto simp: parser_defaults_def)
  next
    case False
    with fin obtain f' where "file_type_rb env input_default = (tr2, Inr f')" "opts = ns\<lparr>input := f'\<rparr>"
      by (auto simp: run_defs dest!: seq_eq_InrD)
    then have "opts = ns\<lparr>input := Stdin\<rparr>" "tr2 = []"
      by (auto simp: file_type_rb_def input_default_def run_defs)
    with f False tr show ?thesis by (auto simp: parser_defaults_def)
  qed
qed

subsection \<open>The blocks of \<open>main\<close> in closed form\<close>

lemma add_colorbar_eq:
  "add_colorbar opts =
     ((if colorbar opts then [Colorbar, SetLabel ''prob. per deg$^2$''] else []), Inr ())"
  by (simp add: add_colorbar_def run_defs)

lemma plot_coords_eq:
  "plot_coords ms =
     (map (\<lambda>(ra, dec). PlotCoord ra dec ''deg'' ''*'' ''white'' ''black'' 10) ms, Inr ())"
  by (induction ms) (auto simp: run_defs)

lemma add_contours_none:
  "contour opts = None \<or> contour opts = Some [] \<Longrightarrow>
   add_contours env opts skymap metadata = ([], Inr None)"
  by (auto simp: add_contours_def run_defs)

lemma add_contours_some:
  assumes "contour opts = Some levels" "levels \<noteq> []" "metadata ''nest'' = Some nest"
  shows "add_contours env opts skymap metadata =
     (case find_greedy_credible_levels env skymap of
        Inl e \<Rightarrow> ([], Inl e)
      | Inr levs \<Rightarrow>
          ([ContourHpx (map (\<lambda>x. 100 * x) levs) ''ICRS'' nest ''k'' (1 / 2) levels,
            Clabel (if usetex env then ''%g'' @ [CHR 0x5C] @ ''%%'' else ''%g%%'') 6 True],
           Inr (Some (map (\<lambda>x. 100 * x) levs))))"
  using assms by (simp add: add_contours_def run_defs Let_def split: sum.splits)

lemma add_continents_eq:
  "add_continents env opts =
     (if geo opts
      then (case load_geometries env (path_join (dirname (plot_file env)) ''ne_simplified_coastline.json'') of
              Inl e \<Rightarrow> ([LoadJson (path_join (dirname (plot_file env)) ''ne_simplified_coastline.json'')], Inl e)
            | Inr geoms \<Rightarrow>
                ([LoadJson (path_join (dirname (plot_file env)) ''ne_simplified_coastline.json''),
                  Plot (concat (map zip_star geoms)) ''0.5'' (1 / 2)], Inr ()))
      else ([], Inr ()))"
  by (simp add: add_continents_def run_defs Let_def split: sum.splits)

lemma marker_positions_none:
  "inj_database opts = None \<Longrightarrow> marker_positions env opts metadata = ([], Inr (radec opts))"
  by (simp add: marker_positions_def run_defs)

lemma marker_positions_some:
  assumes "inj_database opts = Some db"
  shows "marker_positions env opts metadata =
     (case metadata ''objid'' of
        None \<Rightarrow> ([], Inl (KeyError ''objid''))
      | Some objid \<Rightarrow>
          (case execute env db query objid of
             Inl e \<Rightarrow> ([Execute db query objid], Inl e)
           | Inr rows \<Rightarrow>
               (case unpack_single rows of
                  Inl e \<Rightarrow> ([Execute db query objid], Inl e)
                | Inr (ra, dec) \<Rightarrow>
                    ([Execute db query objid], Inr (radec opts @ [(rad2deg ra, rad2deg dec)])))))"
  using assms by (simp add: marker_positions_def run_defs split: option.splits sum.splits prod.splits)

lemma zip_rounded:
  "map (\<lambda>(i, p). area_line p i) (zip (map f levels) (map g levels)) =
   map (\<lambda>p. area_line (g p) (f p)) levels"
  by (induction levels) auto

lemma annotation_off: "\<not> annotate opts \<Longrightarrow> annotation env opts metadata cls area = ([], Inr ())"
  by (simp add: annotation_def run_defs)

lemma annotation_plain:
  assumes "annotate opts" "contour opts = None \<or> contour opts = Some []"
  shows "annotation env opts metadata cls area =
     ([AxText 1 1 (join [CHR 0x0A] (event_id_text env metadata)) ''right''], Inr ())"
  using assms by (auto simp: annotation_def run_defs event_id_text_def split: option.splits)

lemma annotation_areas:
  assumes "annotate opts" "contour opts = Some levels" "levels \<noteq> []"
  shows "annotation env opts metadata (Some cls) area =
     ([AxText 1 1
         (join [CHR 0x0A]
            (event_id_text env metadata @
             map (\<lambda>p. area_line (np_round p)
                        (np_round (real (searchsorted (sort cls) p) * area))) levels))
         ''right''], Inr ())"
  using assms
  by (auto simp: annotation_def run_defs event_id_text_def zip_rounded Let_def split: option.splits)

subsection \<open>\<open>main\<close> along a run whose calls succeed\<close>

lemma main_after_map:
  assumes "parse_args env argv = (tr0, Inr opts)"
    and "read_sky_map env (name (input opts)) = Inr (skymap, metadata)"
    and "npix2nside env (length skymap) = Inr nside"
    and "nside2pixarea env nside = Inr area"
    and "metadata ''gps_time'' = Some t"
    and "gps_to_utc_isot env t = Inr obstime"
    and "array_max (map (\<lambda>x. x / area) skymap) = Inr vmax"
    and "metadata ''nest'' = Some nest"
  shows "main env argv =
    after (tr0 @ drawn_map opts skymap area obstime vmax nest)
     (seq (add_colorbar opts) (\<lambda>_.
      seq (add_contours env opts skymap metadata) (\<lambda>cls.
      seq (add_continents env opts) (\<lambda>_.
      seq (marker_positions env opts metadata) (\<lambda>radecs.
      seq (plot_coords radecs) (\<lambda>_.
      seq (call OutlineText) (\<lambda>_.
      seq (annotation env opts metadata cls area) (\<lambda>_.
      call_with Output (case opts_output env of None \<Rightarrow> Inr () | Some e \<Rightarrow> Inl e)))))))))"
  using assms by (simp add: main_def run_defs drawn_map_def)

lemma main_after_markers:
  assumes "parse_args env argv = (tr0, Inr opts)"
    and "read_sky_map env (name (input opts)) = Inr (skymap, metadata)"
    and "npix2nside env (length skymap) = Inr nside"
    and "nside2pixarea env nside = Inr area"
    and "metadata ''gps_time'' = Some t"
    and "gps_to_utc_isot env t = Inr obstime"
    and "array_max (map (\<lambda>x. x / area) skymap) = Inr vmax"
    and "metadata ''nest'' = Some nest"
    and "add_contours env opts skymap metadata = (trc, Inr cls)"
    and "add_continents env opts = (trg, Inr ())"
  shows "main env argv =
    after (tr0 @ drawn_map opts skymap area obstime vmax nest @ fst (add_colorbar opts) @ trc @ trg)
     (seq (marker_positions env opts metadata) (\<lambda>radecs.
      seq (plot_coords radecs) (\<lambda>_.
      seq (call OutlineText) (\<lambda>_.
      seq (annotation env opts metadata cls area) (\<lambda>_.
      call_with Output (case opts_output env of None \<Rightarrow> Inr () | Some e \<Rightarrow> Inl e))))))"
  by (simp add: main_after_map[OF assms(1-8)] assms(9,10) add_colorbar_eq)

lemma main_completed:
  assumes "snd (main env argv) = Inr u"
  obtains tr0 opts skymap metadata nside area t obstime vmax nest trc cls trg trm radecs tra where
    "parse_args env argv = (tr0, Inr opts)"
    "read_sky_map env (name (input opts)) = Inr (skymap, metadata)"
    "npix2nside env (length skymap) = Inr nside"
    "nside2pixarea env nside = Inr area"
    "metadata ''gps_time'' = Some t"
    "gps_to_utc_isot env t = Inr obstime"
    "array_max (map (\<lambda>x. x / area) skymap) = Inr vmax"
    "metadata ''nest'' = Some nest"
    "add_contours env opts skymap metadata = (trc, Inr cls)"
    "add_continents env opts = (trg, Inr ())"
    "marker_positions env opts metadata = (trm, Inr radecs)"
    "annotation env opts metadata cls area = (tra, Inr ())"
    "opts_output env = None"
    "fst (main env argv) =
       tr0 @ drawn_map opts skymap area obstime vmax nest @ fst (add_colorbar opts) @ trc @ trg @
       trm @ fst (plot_coords radecs) @ [OutlineText] @ tra @ [Output]"
proof -
  obtain tr0 r0 where p0: "parse_args env argv = (tr0, r0)"
    by (cases "parse_args env argv")
  with assms obtain opts where p: "parse_args env argv = (tr0, Inr opts)"
    by (cases r0) (auto simp: main_def)
  have "\<exists>skymap metadata. read_sky_map env (name (input opts)) = Inr (skymap, metadata)"
    using assms p by (cases "read_sky_map env (name (input opts))") (auto simp: main_def run_defs)
  then obtain skymap metadata where
    rd: "read_sky_map env (name (input opts)) = Inr (skymap, metadata)" by blast
  have "\<exists>nside. npix2nside env (length skymap) = Inr nside"
    using assms p rd by (cases "npix2nside env (length skymap)") (auto simp: main_def run_defs)
  then obtain nside where ns: "npix2nside env (length skymap) = Inr nside" by blast
  have "\<exists>area. nside2pixarea env nside = Inr area"
    using assms p rd ns by (cases "nside2pixarea env nside") (auto simp: main_def run_defs)
  then obtain area where ar: "nside2pixarea env nside = Inr area" by blast
  have "\<exists>t. metadata ''gps_time'' = Some t"
    using assms p rd ns ar by (cases "metadata ''gps_time''") (auto simp: main_def run_defs)
  then obtain t where gt: "metadata ''gps_time'' = Some t" by blast
  have "\<exists>obstime. gps_to_utc_isot env t = Inr obstime"
    using assms p rd ns ar gt by (cases "gps_to_utc_isot env t") (auto simp: main_def run_defs)
  then obtain obstime where ob: "gps_to_utc_isot env t = Inr obstime" by blast
  have "\<exists>vmax. array_max (map (\<lambda>x. x / area) skymap) = Inr vmax"
    using assms p rd ns ar gt ob
    by (cases "array_max (map (\<lambda>x. x / area) skymap)") (auto simp: main_def run_defs)
  then obtain vmax where vm: "array_max (map (\<lambda>x. x / area) skymap) = Inr vmax" by blast
  have "\<exists>nest. metadata ''nest'' = Some nest"
    using assms p rd ns ar gt ob vm by (cases "metadata ''nest''") (auto simp: main_def run_defs)
  then obtain nest where ne: "metadata ''nest'' = Some nest" by blast
  note m1 = main_after_map[OF p rd ns ar gt ob vm ne]
  obtain trc rc where c0: "add_contours env opts skymap metadata = (trc, rc)"
    by (cases "add_contours env opts skymap metadata")
  with assms m1 obtain cls where co: "add_contours env opts skymap metadata = (trc, Inr cls)"
    by (cases rc) (auto simp: add_colorbar_eq)
  obtain trg rg where g0: "add_continents env opts = (trg, rg)"
    by (cases "add_continents env opts")
  with assms m1 co have ge: "add_continents env opts = (trg, Inr ())"
    by (cases rg) (auto simp: add_colorbar_eq)
  note m2 = main_after_markers[OF p rd ns ar gt ob vm ne co ge]
  obtain trm rm where k0: "marker_positions env opts metadata = (trm, rm)"
    by (cases "marker_positions env opts metadata")
  with assms m2 obtain radecs where mk: "marker_positions env opts metadata = (trm, Inr radecs)"
    by (cases rm) auto
  obtain tra ra where a0: "annotation env opts metadata cls area = (tra, ra)"
    by (cases "annotation env opts metadata cls area")
  with assms m2 mk have an: "annotation env opts metadata cls area = (tra, Inr ())"
    by (cases ra) (auto simp: plot_coords_eq run_defs)
  from assms m2 mk an have ou: "opts_output env = None"
    by (cases "opts_output env") (auto simp: plot_coords_eq run_defs)
  have "fst (main env argv) =
       tr0 @ drawn_map opts skymap area obstime vmax nest @ fst (add_colorbar opts) @ trc @ trg @
       trm @ fst (plot_coords radecs) @ [OutlineText] @ tra @ [Output]"
    using m2 mk an ou by (simp add: plot_coords_eq run_defs)
  with p rd ns ar gt ob vm ne co ge mk an ou show ?thesis by (rule that)
qed

lemma main_run:
  assumes "parse_args env argv = (tr0, Inr opts)"
    and "read_sky_map env (name (input opts)) = Inr (skymap, metadata)"
    and "npix2nside env (length skymap) = Inr nside"
    and "nside2pixarea env nside = Inr area"
    and "metadata ''gps_time'' = Some t"
    and "gps_to_utc_isot env t = Inr obstime"
    and "array_max (map (\<lambda>x. x / area) skymap) = Inr vmax"
    and "metadata ''nest'' = Some nest"
    and "add_contours env opts skymap metadata = (trc, Inr cls)"
    and "add_continents env opts = (trg, Inr ())"
    and "marker_positions env opts metadata = (trm, Inr radecs)"
    and "annotation env opts metadata cls area = (tra, Inr ())"
    and "opts_output env = None"
  shows "main env argv =
      (tr0 @ drawn_map opts skymap area obstime vmax nest @ fst (add_colorbar opts) @ trc @ trg @
       trm @ fst (plot_coords radecs) @ [OutlineText] @ tra @ [Output], Inr ())"
  by (simp add: main_after_markers[OF assms(1-10)] assms(11-13) plot_coords_eq run_defs)

subsection \<open>Calls made after the sky map is drawn\<close>

lemma later_colorbar: "list_all later_event (fst (add_colorbar opts))"
  by (simp add: add_colorbar_eq later_event_def)

lemma later_contours: "list_all later_event (fst (add_contours env opts skymap metadata))"
  by (auto simp: add_contours_def run_defs fst_seq Let_def later_event_def
           split: option.splits sum.splits)

lemma later_continents: "list_all later_event (fst (add_continents env opts))"
  by (auto simp: add_continents_eq later_event_def split: sum.splits)

lemma later_markers: "list_all later_event (fst (marker_positions env opts metadata))"
  by (auto simp: marker_positions_def run_defs fst_seq later_event_def
           split: option.splits sum.splits prod.splits)

lemma later_plot_coords: "list_all later_event (fst (plot_coords ms))"
  by (induction ms) (auto simp: run_defs later_event_def)

lemma later_annotation: "list_all later_event (fst (annotation env opts metadata cls area))"
  by (auto simp: annotation_def run_defs fst_seq later_event_def Let_def
           split: option.splits sum.splits prod.splits py_error.splits)

lemma later_rest:
  "list_all later_event (fst
     (seq (add_colorbar opts) (\<lambda>_.
      seq (add_contours env opts skymap metadata) (\<lambda>cls.
      seq (add_continents env opts) (\<lambda>_.
      seq (marker_positions env opts metadata) (\<lambda>radecs.
      seq (plot_coords radecs) (\<lambda>_.
      seq (call OutlineText) (\<lambda>_.
      seq (annotation env opts metadata cls area) (\<lambda>_.
      call_with Output out)))))))))"
  by (auto simp: fst_seq later_colorbar later_contours later_continents later_markers
        later_plot_coords later_annotation call_def call_with_def later_event_def
      split: sum.splits)

subsection \<open>How far a run gets\<close>

lemma main_cases:
  assumes p: "parse_args env argv = (tr0, Inr opts)"
  obtains
    (early) e where
      "main env argv = (tr0 @ [ReadSkyMap (name (input opts))], Inl e)"
  | (axes) obstime e where
      "main env argv =
         (tr0 @ [ReadSkyMap (name (input opts)),
                 Axes (if geo opts then ''geo degrees mollweide''
                       else ''astro hours mollweide'') obstime, Grid], Inl e)"
  | (drawn) skymap metadata nside area t obstime vmax nest where
      "read_sky_map env (name (input opts)) = Inr (skymap, metadata)"
      "npix2nside env (length skymap) = Inr nside"
      "nside2pixarea env nside = Inr area"
      "metadata ''gps_time'' = Some t"
      "gps_to_utc_isot env t = Inr obstime"
      "array_max (map (\<lambda>x. x / area) skymap) = Inr vmax"
      "metadata ''nest'' = Some nest"
proof (cases "read_sky_map env (name (input opts))")
  case (Inl e)
  with p have "main env argv = (tr0 @ [ReadSkyMap (name (input opts))], Inl e)"
    by (simp add: main_def run_defs)
  then show ?thesis by (rule early)
next
  case (Inr sm)
  then obtain skymap metadata where
    rd: "read_sky_map env (name (input opts)) = Inr (skymap, metadata)" by (cases sm) auto
  show ?thesis
  proof (cases "npix2nside env (length skymap)")
    case (Inl e)
    with p rd have "main env argv = (tr0 @ [ReadSkyMap (name (input opts))], Inl e)"
      by (simp add: main_def run_defs)
    then show ?thesis by (rule early)
  next
    case ns: (Inr nside)
    show ?thesis
    proof (cases "nside2pixarea env nside")
      case (Inl e)
      with p rd ns have "main env argv = (tr0 @ [ReadSkyMap (name (input opts))], Inl e)"
        by (simp add: main_def run_defs)
      then show ?thesis by (rule early)
    next
      case ar: (Inr area)
      show ?thesis
      proof (cases "metadata ''gps_time''")
        case None
        with p rd ns ar
        have "main env argv = (tr0 @ [ReadSkyMap (name (input opts))], Inl (KeyError ''gps_time''))"
          by (simp add: main_def run_defs)
        then show ?thesis by (rule early)
      next
        case gt: (Some t)
        show ?thesis
        proof (cases "gps_to_utc_isot env t")
          case (Inl e)
          with p rd ns ar gt
          have "main env argv = (tr0 @ [ReadSkyMap (name (input opts))], Inl e)"
            by (simp add: main_def run_defs)
          then show ?thesis by (rule early)
        next
          case ob: (Inr obstime)
          show ?thesis
          proof (cases "array_max (map (\<lambda>x. x / area) skymap)")
            case (Inl e)
            with p rd ns ar gt ob
            have "main env argv =
               (tr0 @ [ReadSkyMap (name (input opts)),
                       Axes (if geo opts then ''geo degrees mollweide''
                             else ''astro hours mollweide'') obstime, Grid], Inl e)"
              by (simp add: main_def run_defs)
            then show ?thesis by (rule axes)
          next
            case vm: (Inr vmax)
            show ?thesis
            proof (cases "metadata ''nest''")
              case None
              with p rd ns ar gt ob vm
              have "main env argv =
                 (tr0 @ [ReadSkyMap (name (input opts)),
                         Axes (if geo opts then ''geo degrees mollweide''
                               else ''astro hours mollweide'') obstime, Grid],
                  Inl (KeyError ''nest''))"
                by (simp add: main_def run_defs)
              then show ?thesis by (rule axes)
            next
              case ne: (Some nest)
              from rd ns ar gt ob vm ne show ?thesis by (rule drawn)
            qed
          qed
        qed
      qed
    qed
  qed
qed

lemma main_trace_shape:
  assumes p: "parse_args env argv = (tr0, Inr opts)"
  shows "fst (main env argv) = tr0 @ [ReadSkyMap (name (input opts))]
       \<or> (\<exists>obstime. fst (main env argv) =
             tr0 @ [ReadSkyMap (name (input opts)),
                    Axes (if geo opts then ''geo degrees mollweide''
                          else ''astro hours mollweide'') obstime, Grid])
       \<or> (\<exists>skymap metadata nside area obstime vmax nest later.
             read_sky_map env (name (input opts)) = Inr (skymap, metadata) \<and>
             npix2nside env (length skymap) = Inr nside \<and>
             nside2pixarea env nside = Inr area \<and>
             list_all later_event later \<and>
             fst (main env argv) = tr0 @ drawn_map opts skymap area obstime vmax nest @ later)"
  using p
proof (cases rule: main_cases)
  case (early e)
  then show ?thesis by simp
next
  case (axes obstime e)
  then show ?thesis by auto
next
  case (drawn skymap metadata nside area t obstime vmax nest)
  have "\<exists>later. list_all later_event later \<and>
          fst (main env argv) = tr0 @ drawn_map opts skymap area obstime vmax nest @ later"
    unfolding main_after_map[OF p drawn]
    by (intro exI conjI, rule later_rest) simp
  with drawn(1-3) show ?thesis by blast
qed

section \<open>Properties of the program\<close>

subsection \<open>Reading traces\<close>

lemmas reader_defs = projections_def imshow_arrays_def sky_maps_read_def markers_def
  annotation_texts_def labelled_levels_def label_formats_def queries_executed_def files_opened_def

lemma reader_Nil:
  "projections [] = []" "imshow_arrays [] = []" "sky_maps_read [] = []" "markers [] = []"
  "annotation_texts [] = []" "labelled_levels [] = []" "label_formats [] = []"
  "queries_executed [] = []" "files_opened [] = []"
  by (simp_all add: reader_defs)

lemma reader_append:
  "projections (a @ b) = projections a @ projections b"
  "imshow_arrays (a @ b) = imshow_arrays a @ imshow_arrays b"
  "sky_maps_read (a @ b) = sky_maps_read a @ sky_maps_read b"
  "markers (a @ b) = markers a @ markers b"
  "annotation_texts (a @ b) = annotation_texts a @ annotation_texts b"
  "labelled_levels (a @ b) = labelled_levels a @ labelled_levels b"
  "label_formats (a @ b) = label_formats a @ label_formats b"
  "queries_executed (a @ b) = queries_executed a @ queries_executed b"
  "files_opened (a @ b) = files_opened a @ files_opened b"
  by (simp_all add: reader_defs)

lemma reader_Cons:
  "projections (ev # tr) = (case ev of Axes p t \<Rightarrow> [p] | _ \<Rightarrow> []) @ projections tr"
  "imshow_arrays (ev # tr) =
     (case ev of ImshowHpx arr fr ne lo hi \<Rightarrow> [arr] | _ \<Rightarrow> []) @ imshow_arrays tr"
  "sky_maps_read (ev # tr) = (case ev of ReadSkyMap n \<Rightarrow> [n] | _ \<Rightarrow> []) @ sky_maps_read tr"
  "markers (ev # tr) =
     (case ev of PlotCoord ra dec u m fc ec sz \<Rightarrow> [(ra, dec, u, m)] | _ \<Rightarrow> []) @ markers tr"
  "annotation_texts (ev # tr) = (case ev of AxText x y s ha \<Rightarrow> [s] | _ \<Rightarrow> []) @ annotation_texts tr"
  "labelled_levels (ev # tr) =
     (case ev of ContourHpx c fr ne col lw levels \<Rightarrow> [levels] | _ \<Rightarrow> []) @ labelled_levels tr"
  "label_formats (ev # tr) = (case ev of Clabel fmt sz inl \<Rightarrow> [fmt] | _ \<Rightarrow> []) @ label_formats tr"
  "queries_executed (ev # tr) =
     (case ev of Execute db q v \<Rightarrow> [(db, q, v)] | _ \<Rightarrow> []) @ queries_executed tr"
  "files_opened (ev # tr) = (case ev of Open n mode \<Rightarrow> [(n, mode)] | _ \<Rightarrow> []) @ files_opened tr"
  by (simp_all add: reader_defs)

lemmas reader_simps = reader_Nil reader_append reader_Cons

lemma parse_events_read:
  "list_all parse_event tr \<Longrightarrow>
     projections tr = [] \<and> imshow_arrays tr = [] \<and> sky_maps_read tr = [] \<and> markers tr = [] \<and>
     annotation_texts tr = [] \<and> labelled_levels tr = [] \<and> label_formats tr = [] \<and>
     queries_executed tr = [] \<and> OutlineText \<notin> set tr"
  by (induction tr) (auto simp: reader_simps parse_event_def split: event.splits)

lemma later_events_read:
  "list_all later_event tr \<Longrightarrow>
     projections tr = [] \<and> imshow_arrays tr = [] \<and> sky_maps_read tr = [] \<and> files_opened tr = []"
  by (induction tr) (auto simp: reader_simps later_event_def split: event.splits)

lemma main_parse_failed:
  "parse_args env argv = (tr0, Inl e) \<Longrightarrow> main env argv = (tr0, Inl e)"
  by (simp add: main_def)

lemma parse_args_tr: "parse_args env argv = (tr0, r) \<Longrightarrow> list_all parse_event tr0"
  using parse_args_events[of env argv] by simp

subsection \<open>The projection follows the \<open>--geo\<close> flag\<close>

text \<open>
  C4. The projection handed to \<open>plt.axes\<close> is \<open>geo degrees mollweide\<close> when \<open>--geo\<close>
  is on the command line and \<open>astro hours mollweide\<close> otherwise. This holds for every
  axes a run creates, whether or not the run completes, and a run that completes
  creates exactly one.
\<close>

theorem projection_follows_geo_flag:
  "(\<forall>p \<in> set (projections (fst (main env argv))).
       p = (if Arg_geo \<in> set argv then ''geo degrees mollweide'' else ''astro hours mollweide''))
   \<and> (snd (main env argv) = Inr () \<longrightarrow>
        projections (fst (main env argv)) =
          [if Arg_geo \<in> set argv then ''geo degrees mollweide'' else ''astro hours mollweide''])"
proof -
  let ?proj = "if Arg_geo \<in> set argv then ''geo degrees mollweide'' else ''astro hours mollweide''"
  obtain tr0 r where p0: "parse_args env argv = (tr0, r)" by (cases "parse_args env argv")
  note ev0 = parse_events_read[OF parse_args_tr[OF p0]]
  show ?thesis
  proof (cases r)
    case (Inl e)
    with p0 ev0 show ?thesis by (simp add: main_parse_failed)
  next
    case (Inr opts)
    with p0 have p: "parse_args env argv = (tr0, Inr opts)" by simp
    from parse_args_fields[OF p] have g: "geo opts = (Arg_geo \<in> set argv)" by simp
    have all: "\<forall>p \<in> set (projections (fst (main env argv))). p = ?proj"
      using main_trace_shape[OF p] ev0 g
      by (auto simp: reader_simps drawn_map_def dest!: later_events_read)
    have one: "projections (fst (main env argv)) = [?proj]" if "snd (main env argv) = Inr ()"
    proof -
      from that obtain tr0' opts' skymap metadata nside area t obstime vmax nest trc cls trg trm radecs tra
        where p': "parse_args env argv = (tr0', Inr opts')"
          and tr: "fst (main env argv) =
             tr0' @ drawn_map opts' skymap area obstime vmax nest @ fst (add_colorbar opts') @ trc @ trg @
             trm @ fst (plot_coords radecs) @ [OutlineText] @ tra @ [Output]"
        by (rule main_completed)
      from p p' have [simp]: "tr0' = tr0" "opts' = opts" by simp_all
      from main_trace_shape[OF p] tr ev0 g show ?thesis
        by (auto simp: reader_simps drawn_map_def dest!: later_events_read)
    qed
    from all one show ?thesis by blast
  qed
qed

subsection \<open>The density drawn\<close>

text \<open>
  C1. The array handed to \<open>imshow_hpx\<close> is the sky map divided elementwise by the
  pixel area in square degrees, the area being that of the resolution derived from
  the length of the array. Every array a run draws is this one, and a run that
  completes draws it exactly once. The pixel area is taken to be non-zero, as HEALPix
  areas are: a quotient by zero has no counterpart among the reals.
\<close>

theorem density_is_sky_map_over_pixel_area:
  assumes "parse_args env argv = (tr0, Inr opts)"
    and "read_sky_map env (name (input opts)) = Inr (skymap, metadata)"
    and "npix2nside env (length skymap) = Inr nside"
    and "nside2pixarea env nside = Inr area"
    and "area \<noteq> 0"
  shows "(\<forall>arr \<in> set (imshow_arrays (fst (main env argv))). arr = map (\<lambda>x. x / area) skymap)
       \<and> (snd (main env argv) = Inr () \<longrightarrow>
            imshow_arrays (fst (main env argv)) = [map (\<lambda>x. x / area) skymap])"
proof -
  note ev0 = parse_events_read[OF parse_args_tr[OF assms(1)]]
  have all: "\<forall>arr \<in> set (imshow_arrays (fst (main env argv))). arr = map (\<lambda>x. x / area) skymap"
    using main_trace_shape[OF assms(1)] ev0 assms(2-4)
    by (auto simp: reader_simps drawn_map_def dest!: later_events_read)
  have one: "imshow_arrays (fst (main env argv)) = [map (\<lambda>x. x / area) skymap]"
    if "snd (main env argv) = Inr ()"
  proof -
    from that obtain tr0' opts' skymap' metadata' nside' area' t obstime vmax nest trc cls trg trm radecs tra
      where p': "parse_args env argv = (tr0', Inr opts')"
        and tr: "fst (main env argv) =
           tr0' @ drawn_map opts' skymap' area' obstime vmax nest @ fst (add_colorbar opts') @ trc @ trg @
           trm @ fst (plot_coords radecs) @ [OutlineText] @ tra @ [Output]"
      by (rule main_completed)
    from assms(1) p' have [simp]: "tr0' = tr0" "opts' = opts" by simp_all
    from main_trace_shape[OF assms(1)] tr ev0 assms(2-4) show ?thesis
      by (auto simp: reader_simps drawn_map_def dest!: later_events_read)
  qed
  from all one show ?thesis by blast
qed

subsection \<open>The input file\<close>

text \<open>
  The reader is called with the name of the input option: \<open><stdin>\<close> without a
  positional argument, the name of the opened file with one.
\<close>

lemma reader_called_with_input_name:
  assumes "parse_args env argv = (tr0, Inr opts)"
  shows "(positionals argv = [] \<longrightarrow>
            input opts = Stdin \<and> files_opened (fst (main env argv)) = [] \<and>
            sky_maps_read (fst (main env argv)) = [''<stdin>''])
       \<and> (\<forall>s. positionals argv = [s] \<and> s \<noteq> ''-'' \<longrightarrow>
            input opts = OpenedFile s \<and> files_opened (fst (main env argv)) = [(s, ''rb'')] \<and>
            sky_maps_read (fst (main env argv)) = [s])"
proof -
  note ev0 = parse_events_read[OF parse_args_tr[OF assms]]
  note f = parse_args_fields[OF assms]
  have rd: "sky_maps_read (fst (main env argv)) = [name (input opts)]"
    using main_trace_shape[OF assms] ev0
    by (auto simp: reader_simps drawn_map_def dest!: later_events_read)
  have op: "files_opened (fst (main env argv)) = files_opened tr0"
    using main_trace_shape[OF assms]
    by (auto simp: reader_simps drawn_map_def dest!: later_events_read)
  from f rd op show ?thesis
    by (auto simp: stream_of_def opened_for_def)
qed

subsection \<open>What each block contributes to a trace\<close>

lemma colorbar_reads:
  "markers (fst (add_colorbar opts)) = []" "annotation_texts (fst (add_colorbar opts)) = []"
  "labelled_levels (fst (add_colorbar opts)) = []" "label_formats (fst (add_colorbar opts)) = []"
  "queries_executed (fst (add_colorbar opts)) = []" "OutlineText \<notin> set (fst (add_colorbar opts))"
  by (simp_all add: add_colorbar_eq reader_simps)

lemma contours_reads:
  "markers (fst (add_contours env opts skymap metadata)) = []"
  "annotation_texts (fst (add_contours env opts skymap metadata)) = []"
  "queries_executed (fst (add_contours env opts skymap metadata)) = []"
  "OutlineText \<notin> set (fst (add_contours env opts skymap metadata))"
  by (auto simp: add_contours_def run_defs fst_seq Let_def reader_simps
           split: option.splits sum.splits)

lemma continents_reads:
  "markers (fst (add_continents env opts)) = []"
  "annotation_texts (fst (add_continents env opts)) = []"
  "labelled_levels (fst (add_continents env opts)) = []"
  "label_formats (fst (add_continents env opts)) = []"
  "queries_executed (fst (add_continents env opts)) = []"
  "OutlineText \<notin> set (fst (add_continents env opts))"
  by (auto simp: add_continents_eq reader_simps split: sum.splits)

lemma marker_positions_reads:
  "markers (fst (marker_positions env opts metadata)) = []"
  "annotation_texts (fst (marker_positions env opts metadata)) = []"
  "labelled_levels (fst (marker_positions env opts metadata)) = []"
  "label_formats (fst (marker_positions env opts metadata)) = []"
  "OutlineText \<notin> set (fst (marker_positions env opts metadata))"
  by (auto simp: marker_positions_def run_defs fst_seq reader_simps
           split: option.splits sum.splits prod.splits)

lemma plot_coords_reads:
  "markers (fst (plot_coords ms)) = map star ms"
  "annotation_texts (fst (plot_coords ms)) = []"
  "labelled_levels (fst (plot_coords ms)) = []"
  "label_formats (fst (plot_coords ms)) = []"
  "queries_executed (fst (plot_coords ms)) = []"
  "OutlineText \<notin> set (fst (plot_coords ms))"
  by (induction ms) (auto simp: plot_coords_eq reader_simps star_def)

lemma annotation_reads:
  "markers (fst (annotation env opts metadata cls area)) = []"
  "labelled_levels (fst (annotation env opts metadata cls area)) = []"
  "label_formats (fst (annotation env opts metadata cls area)) = []"
  "queries_executed (fst (annotation env opts metadata cls area)) = []"
  by (auto simp: annotation_def run_defs fst_seq Let_def reader_simps
           split: option.splits sum.splits prod.splits py_error.splits)

lemma drawn_map_reads:
  "markers (drawn_map opts skymap area obstime vmax nest) = []"
  "annotation_texts (drawn_map opts skymap area obstime vmax nest) = []"
  "labelled_levels (drawn_map opts skymap area obstime vmax nest) = []"
  "label_formats (drawn_map opts skymap area obstime vmax nest) = []"
  "queries_executed (drawn_map opts skymap area obstime vmax nest) = []"
  "OutlineText \<notin> set (drawn_map opts skymap area obstime vmax nest)"
  by (simp_all add: drawn_map_def reader_simps)

lemmas block_reads = colorbar_reads contours_reads continents_reads marker_positions_reads
  plot_coords_reads annotation_reads drawn_map_reads

text \<open>The markers of a run: none unless the marker loop is reached.\<close>

lemma markers_any_run:
  assumes p: "parse_args env argv = (tr0, Inr opts)"
  shows "markers (fst (main env argv)) = []
       \<or> (\<exists>skymap metadata trm radecs.
             read_sky_map env (name (input opts)) = Inr (skymap, metadata) \<and>
             marker_positions env opts metadata = (trm, Inr radecs) \<and>
             markers (fst (main env argv)) = map star radecs)"
  using p
proof (cases rule: main_cases)
  case (early e)
  with parse_events_read[OF parse_args_tr[OF p]] show ?thesis by (simp add: reader_simps)
next
  case (axes obstime e)
  with parse_events_read[OF parse_args_tr[OF p]] show ?thesis by (simp add: reader_simps)
next
  case (drawn skymap metadata nside area t obstime vmax nest)
  note ev0 = parse_events_read[OF parse_args_tr[OF p]]
  obtain trm rm where k: "marker_positions env opts metadata = (trm, rm)"
    by (cases "marker_positions env opts metadata")
  from marker_positions_reads(1)[of env opts metadata] k have trm: "markers trm = []" by simp
  show ?thesis
  proof (cases rm)
    case (Inl e)
    with k trm ev0 have "markers (fst (main env argv)) = []"
      unfolding main_after_map[OF p drawn]
      by (auto simp: fst_seq reader_simps block_reads split: sum.splits)
    then show ?thesis by simp
  next
    case (Inr radecs)
    with k trm ev0 have "markers (fst (main env argv)) = [] \<or> markers (fst (main env argv)) = map star radecs"
      unfolding main_after_map[OF p drawn]
      by (auto simp: fst_seq reader_simps block_reads run_defs split: sum.splits)
    with k Inr drawn(1) show ?thesis by blast
  qed
qed

lemma markers_completed:
  assumes c: "snd (main env argv) = Inr ()"
    and p: "parse_args env argv = (tr0, Inr opts)"
  obtains skymap metadata trm radecs where
    "read_sky_map env (name (input opts)) = Inr (skymap, metadata)"
    "marker_positions env opts metadata = (trm, Inr radecs)"
    "markers (fst (main env argv)) = map star radecs"
    "queries_executed (fst (main env argv)) = queries_executed trm"
proof -
  from c obtain tr0' opts' skymap metadata nside area t obstime vmax nest trc cls trg trm radecs tra
    where p': "parse_args env argv = (tr0', Inr opts')"
      and rd': "read_sky_map env (name (input opts')) = Inr (skymap, metadata)"
      and mk': "marker_positions env opts' metadata = (trm, Inr radecs)"
      and co': "add_contours env opts' skymap metadata = (trc, Inr cls)"
      and ge': "add_continents env opts' = (trg, Inr ())"
      and an': "annotation env opts' metadata cls area = (tra, Inr ())"
      and tr': "fst (main env argv) =
         tr0' @ drawn_map opts' skymap area obstime vmax nest @ fst (add_colorbar opts') @ trc @ trg @
         trm @ fst (plot_coords radecs) @ [OutlineText] @ tra @ [Output]"
    by (rule main_completed)
  from p p' have eq: "tr0' = tr0" "opts' = opts" by simp_all
  note rd = rd'[unfolded eq] and mk = mk'[unfolded eq] and co = co'[unfolded eq]
    and ge = ge'[unfolded eq] and an = an'[unfolded eq] and tr = tr'[unfolded eq]
  note ev0 = parse_events_read[OF parse_args_tr[OF p]]
  from contours_reads[of env opts skymap metadata] co
  have trc: "markers trc = []" "queries_executed trc = []" by simp_all
  from continents_reads[of env opts] ge
  have trg: "markers trg = []" "queries_executed trg = []" by simp_all
  from marker_positions_reads[of env opts metadata] mk have trm: "markers trm = []" by simp
  from annotation_reads[of env opts metadata cls area] an
  have tra: "markers tra = []" "queries_executed tra = []" by simp_all
  have "markers (fst (main env argv)) = map star radecs"
    and "queries_executed (fst (main env argv)) = queries_executed trm"
    unfolding tr using ev0 trc trg trm tra
    by (simp_all add: reader_simps drawn_map_reads colorbar_reads plot_coords_reads)
  with rd mk show ?thesis by (rule that)
qed

lemma unpack_single_InrD: "unpack_single rows = Inr r \<Longrightarrow> rows = [r]"
  by (auto simp: unpack_single_def split: list.splits)

lemma marker_positions_InrD:
  assumes "marker_positions env opts metadata = (trm, Inr radecs)"
  shows "(inj_database opts = None \<longrightarrow> radecs = radec opts \<and> trm = [])
       \<and> (\<forall>db. inj_database opts = Some db \<longrightarrow>
            (\<exists>objid lon lat. metadata ''objid'' = Some objid \<and>
               execute env db query objid = Inr [(lon, lat)] \<and>
               trm = [Execute db query objid] \<and>
               radecs = radec opts @ [(rad2deg lon, rad2deg lat)]))"
proof (cases "inj_database opts")
  case None
  with assms show ?thesis by (simp add: marker_positions_none)
next
  case (Some db)
  with assms show ?thesis
    by (auto simp: marker_positions_some split: option.splits sum.splits prod.splits
             dest!: unpack_single_InrD)
qed

subsection \<open>Markers\<close>

text \<open>
  C8. On a completed run every \<open>--radec\<close> pair gives one star marker at that position
  in degrees, in the order of the command line: without \<open>--inj-database\<close> these are
  all the markers, with it exactly one more marker follows them. With neither option
  no marker is plotted, on any run.
\<close>

theorem radec_pairs_are_star_markers:
  "(snd (main env argv) = Inr () \<and> \<not> inj_given argv \<longrightarrow>
      markers (fst (main env argv)) = map star (radec_args argv))
   \<and> (snd (main env argv) = Inr () \<longrightarrow>
        take (length (radec_args argv)) (markers (fst (main env argv))) = map star (radec_args argv) \<and>
        length (markers (fst (main env argv))) =
          length (radec_args argv) + (if inj_given argv then 1 else 0))
   \<and> (radec_args argv = [] \<and> \<not> inj_given argv \<longrightarrow> markers (fst (main env argv)) = [])"
proof -
  obtain tr0 r where p0: "parse_args env argv = (tr0, r)" by (cases "parse_args env argv")
  note ev0 = parse_events_read[OF parse_args_tr[OF p0]]
  show ?thesis
  proof (cases r)
    case (Inl e)
    with p0 ev0 show ?thesis by (simp add: main_parse_failed)
  next
    case (Inr opts)
    with p0 have p: "parse_args env argv = (tr0, Inr opts)" by simp
    note f = parse_args_fields[OF p]
    from f have ra: "radec opts = radec_args argv"
      and inj: "(inj_database opts = None) = (\<not> inj_given argv)" by simp_all
    have completed:
      "(\<not> inj_given argv \<longrightarrow> markers (fst (main env argv)) = map star (radec_args argv))
       \<and> take (length (radec_args argv)) (markers (fst (main env argv))) = map star (radec_args argv)
       \<and> length (markers (fst (main env argv))) =
           length (radec_args argv) + (if inj_given argv then 1 else 0)"
      if c: "snd (main env argv) = Inr ()"
    proof -
      from c p obtain skymap metadata trm radecs where
        mk: "marker_positions env opts metadata = (trm, Inr radecs)"
        and ms: "markers (fst (main env argv)) = map star radecs"
        by (rule markers_completed)
      show ?thesis
      proof (cases "inj_database opts")
        case None
        with marker_positions_InrD[OF mk] inj ra ms show ?thesis by simp
      next
        case (Some db)
        with marker_positions_InrD[OF mk] inj ra ms show ?thesis by auto
      qed
    qed
    have none: "markers (fst (main env argv)) = []"
      if "radec_args argv = []" "\<not> inj_given argv"
    proof -
      from that inj ra have "inj_database opts = None" "radec opts = []" by simp_all
      then have "marker_positions env opts metadata = ([], Inr [])" for metadata
        by (simp add: marker_positions_none)
      with markers_any_run[OF p] show ?thesis by auto
    qed
    from completed none show ?thesis by blast
  qed
qed

subsection \<open>The injection marker\<close>

text \<open>
  C10. On a completed run with \<open>--inj-database\<close>, the query was executed once with the
  \<open>objid\<close> of the metadata, it returned a single row, and the last marker stands at
  that row's longitude and latitude, each multiplied by \<open>180 / pi\<close>.
\<close>

theorem injection_marker_in_degrees:
  assumes "snd (main env argv) = Inr ()"
    and "parse_args env argv = (tr0, Inr opts)"
    and "inj_database opts = Some db"
  shows "\<exists>skymap metadata objid lon lat.
           read_sky_map env (name (input opts)) = Inr (skymap, metadata) \<and>
           metadata ''objid'' = Some objid \<and>
           execute env db query objid = Inr [(lon, lat)] \<and>
           queries_executed (fst (main env argv)) = [(db, query, objid)] \<and>
           markers (fst (main env argv)) =
             map star (radec opts) @ [(lon * (180 / pi), lat * (180 / pi), ''deg'', ''*'')]"
proof -
  from assms(1,2) obtain skymap metadata trm radecs where
    rd: "read_sky_map env (name (input opts)) = Inr (skymap, metadata)"
    and mk: "marker_positions env opts metadata = (trm, Inr radecs)"
    and ms: "markers (fst (main env argv)) = map star radecs"
    and qs: "queries_executed (fst (main env argv)) = queries_executed trm"
    by (rule markers_completed)
  from marker_positions_InrD[OF mk] assms(3) obtain objid lon lat where
    "metadata ''objid'' = Some objid" "execute env db query objid = Inr [(lon, lat)]"
    "trm = [Execute db query objid]" "radecs = radec opts @ [(rad2deg lon, rad2deg lat)]"
    by auto
  with rd ms qs show ?thesis
    by (auto simp: reader_simps star_def rad2deg_def)
qed

subsection \<open>Missing metadata keys\<close>

text \<open>
  C7. When the sky map has been read and its resolution and pixel area computed, a
  metadata without \<open>gps_time\<close> ends the run with \<open>KeyError\<close> right after the read, and
  a metadata without \<open>nest\<close> ends it with \<open>KeyError\<close> right after the axes and grid
  have been made. No later call is made, and no run with either key missing
  completes.
\<close>

theorem missing_metadata_key_propagates:
  assumes p: "parse_args env argv = (tr0, Inr opts)"
    and rd: "read_sky_map env (name (input opts)) = Inr (skymap, metadata)"
    and ns: "npix2nside env (length skymap) = Inr nside"
    and ar: "nside2pixarea env nside = Inr area"
  shows "(metadata ''gps_time'' = None \<longrightarrow>
            main env argv = (tr0 @ [ReadSkyMap (name (input opts))], Inl (KeyError ''gps_time'')))
       \<and> (\<forall>t obstime. metadata ''gps_time'' = Some t \<and> gps_to_utc_isot env t = Inr obstime \<and>
              skymap \<noteq> [] \<and> metadata ''nest'' = None \<longrightarrow>
            main env argv =
              (tr0 @ [ReadSkyMap (name (input opts)),
                      Axes (if geo opts then ''geo degrees mollweide''
                            else ''astro hours mollweide'') obstime, Grid],
               Inl (KeyError ''nest'')))
       \<and> (metadata ''gps_time'' = None \<or> metadata ''nest'' = None \<longrightarrow>
            snd (main env argv) \<noteq> Inr ())"
proof -
  have a: "main env argv = (tr0 @ [ReadSkyMap (name (input opts))], Inl (KeyError ''gps_time''))"
    if "metadata ''gps_time'' = None"
    using p rd ns ar that by (simp add: main_def run_defs)
  have b: "main env argv =
              (tr0 @ [ReadSkyMap (name (input opts)),
                      Axes (if geo opts then ''geo degrees mollweide''
                            else ''astro hours mollweide'') obstime, Grid],
               Inl (KeyError ''nest''))"
    if "metadata ''gps_time'' = Some t" "gps_to_utc_isot env t = Inr obstime"
       "skymap \<noteq> []" "metadata ''nest'' = None" for t obstime
    using p rd ns ar that by (simp add: main_def run_defs array_max_def split: list.splits)
  have c: "snd (main env argv) \<noteq> Inr ()"
    if k: "metadata ''gps_time'' = None \<or> metadata ''nest'' = None"
  proof
    assume "snd (main env argv) = Inr ()"
    then obtain tr0' opts' skymap' metadata' t nest
      where "parse_args env argv = (tr0', Inr opts')"
        "read_sky_map env (name (input opts')) = Inr (skymap', metadata')"
        "metadata' ''gps_time'' = Some t" "metadata' ''nest'' = Some nest"
      by (rule main_completed)
    with p rd k show False by auto
  qed
  from a b c show ?thesis by blast
qed

lemma contours_result:
  assumes "add_contours env opts skymap metadata = (trc, Inr cls)"
  shows "(contour opts = None \<or> contour opts = Some [] \<longrightarrow> cls = None \<and> trc = [])
       \<and> (\<forall>levels. contour opts = Some levels \<and> levels \<noteq> [] \<longrightarrow>
            (\<exists>levs nest. find_greedy_credible_levels env skymap = Inr levs \<and>
               metadata ''nest'' = Some nest \<and>
               cls = Some (map (\<lambda>x. 100 * x) levs) \<and>
               trc = [ContourHpx (map (\<lambda>x. 100 * x) levs) ''ICRS'' nest ''k'' (1 / 2) levels,
                      Clabel (if usetex env then ''%g'' @ [CHR 0x5C] @ ''%%'' else ''%g%%'') 6 True]))"
  using assms
  by (auto simp: add_contours_def run_defs Let_def
           dest!: seq_eq_InrD split: option.splits if_splits)

lemma snd_plot_coords: "snd (plot_coords ms) = Inr ()"
  by (simp add: plot_coords_eq)

subsection \<open>The injection query\<close>

text \<open>
  C6. With \<open>--inj-database\<close>, once the run has reached the marker block: a metadata
  without \<open>objid\<close> raises \<open>KeyError\<close> before any query is executed; otherwise the
  query is executed once with that \<open>objid\<close>, no row or more than one row raises the
  unpacking \<open>ValueError\<close>, and the run goes on to the text outline exactly when the
  query returned one row.
\<close>

theorem injection_query_needs_exactly_one_row:
  assumes p: "parse_args env argv = (tr0, Inr opts)"
    and rd: "read_sky_map env (name (input opts)) = Inr (skymap, metadata)"
    and ns: "npix2nside env (length skymap) = Inr nside"
    and ar: "nside2pixarea env nside = Inr area"
    and gt: "metadata ''gps_time'' = Some t"
    and ob: "gps_to_utc_isot env t = Inr obstime"
    and vm: "array_max (map (\<lambda>x. x / area) skymap) = Inr vmax"
    and ne: "metadata ''nest'' = Some nest"
    and co: "add_contours env opts skymap metadata = (trc, Inr cls)"
    and ge: "add_continents env opts = (trg, Inr ())"
    and db: "inj_database opts = Some db"
  shows "(metadata ''objid'' = None \<longrightarrow>
            snd (main env argv) = Inl (KeyError ''objid'') \<and>
            queries_executed (fst (main env argv)) = [] \<and>
            OutlineText \<notin> set (fst (main env argv)))
       \<and> (\<forall>objid rows. metadata ''objid'' = Some objid \<and> execute env db query objid = Inr rows \<longrightarrow>
            queries_executed (fst (main env argv)) = [(db, query, objid)] \<and>
            (rows = [] \<longrightarrow>
               snd (main env argv) =
                 Inl (ValueError ''not enough values to unpack (expected 1, got 0)'')) \<and>
            (1 < length rows \<longrightarrow>
               snd (main env argv) = Inl (ValueError ''too many values to unpack (expected 1)'')) \<and>
            (OutlineText \<in> set (fst (main env argv))) = (length rows = 1))"
proof -
  note ev0 = parse_events_read[OF parse_args_tr[OF p]]
  from contours_reads[of env opts skymap metadata] co
  have trc: "queries_executed trc = []" "OutlineText \<notin> set trc" by simp_all
  from continents_reads[of env opts] ge
  have trg: "queries_executed trg = []" "OutlineText \<notin> set trg" by simp_all
  note m = main_after_markers[OF p rd ns ar gt ob vm ne co ge]
  note pre = ev0 trc trg drawn_map_reads colorbar_reads
  have a: "snd (main env argv) = Inl (KeyError ''objid'') \<and>
           queries_executed (fst (main env argv)) = [] \<and>
           OutlineText \<notin> set (fst (main env argv))"
    if "metadata ''objid'' = None"
    unfolding m using that db pre
    by (simp add: marker_positions_some reader_simps)
  have b: "queries_executed (fst (main env argv)) = [(db, query, objid)] \<and>
            (rows = [] \<longrightarrow>
               snd (main env argv) =
                 Inl (ValueError ''not enough values to unpack (expected 1, got 0)'')) \<and>
            (1 < length rows \<longrightarrow>
               snd (main env argv) = Inl (ValueError ''too many values to unpack (expected 1)'')) \<and>
            (OutlineText \<in> set (fst (main env argv))) = (length rows = 1)"
    if o: "metadata ''objid'' = Some objid" and e: "execute env db query objid = Inr rows"
    for objid rows
  proof (cases rows)
    case Nil
    then show ?thesis
      unfolding m using o e db pre
      by (simp add: marker_positions_some reader_simps unpack_single_def)
  next
    case (Cons r rest)
    show ?thesis
    proof (cases rest)
      case Nil
      obtain lon lat where r: "r = (lon, lat)" by (cases r)
      from annotation_reads(4)[of env opts metadata cls area]
      show ?thesis
        unfolding m using o e db pre Cons Nil r
        by (simp add: marker_positions_some reader_simps unpack_single_def fst_seq
              snd_plot_coords plot_coords_reads run_defs split: sum.splits)
    next
      case (Cons r2 rest2)
      with \<open>rows = r # rest\<close> show ?thesis
        unfolding m using o e db pre
        by (simp add: marker_positions_some reader_simps unpack_single_def)
    qed
  qed
  from a b show ?thesis by blast
qed

subsection \<open>Searching the sorted credible levels\<close>

lemma takeWhile_below_sorted:
  "sorted xs \<Longrightarrow> takeWhile (\<lambda>x. x < v) xs = filter (\<lambda>x. x < (v::real)) xs"
proof (induction xs)
  case Nil
  then show ?case by simp
next
  case (Cons x xs)
  show ?case
  proof (cases "x < v")
    case True
    with Cons show ?thesis by simp
  next
    case False
    with Cons.prems have "\<forall>y \<in> set xs. \<not> y < v" by auto
    then have "filter (\<lambda>x. x < v) xs = []" by (simp add: filter_empty_conv)
    with False show ?thesis by simp
  qed
qed

lemma searchsorted_sort:
  "searchsorted (sort cls) p = length (filter (\<lambda>c. c < p) cls)"
proof -
  have "searchsorted (sort cls) p = length (filter (\<lambda>c. c < p) (sort cls))"
    by (simp add: searchsorted_def takeWhile_below_sorted)
  also have "\<dots> = length (sort (filter (\<lambda>c. c < p) cls))" by (simp only: filter_sort)
  finally show ?thesis by simp
qed




lemma annotation_completed:
  assumes c: "snd (main env argv) = Inr ()"
    and p: "parse_args env argv = (tr0, Inr opts)"
  obtains skymap metadata nside area trc cls tra where
    "read_sky_map env (name (input opts)) = Inr (skymap, metadata)"
    "npix2nside env (length skymap) = Inr nside"
    "nside2pixarea env nside = Inr area"
    "add_contours env opts skymap metadata = (trc, Inr cls)"
    "annotation env opts metadata cls area = (tra, Inr ())"
    "annotation_texts (fst (main env argv)) = annotation_texts tra"
    "labelled_levels (fst (main env argv)) = labelled_levels trc"
    "label_formats (fst (main env argv)) = label_formats trc"
proof -
  from c obtain tr0' opts' skymap metadata nside area t obstime vmax nest trc cls trg trm radecs tra
    where p': "parse_args env argv = (tr0', Inr opts')"
      and rd': "read_sky_map env (name (input opts')) = Inr (skymap, metadata)"
      and ns: "npix2nside env (length skymap) = Inr nside"
      and ar: "nside2pixarea env nside = Inr area"
      and mk': "marker_positions env opts' metadata = (trm, Inr radecs)"
      and co': "add_contours env opts' skymap metadata = (trc, Inr cls)"
      and ge': "add_continents env opts' = (trg, Inr ())"
      and an': "annotation env opts' metadata cls area = (tra, Inr ())"
      and tr': "fst (main env argv) =
         tr0' @ drawn_map opts' skymap area obstime vmax nest @ fst (add_colorbar opts') @ trc @ trg @
         trm @ fst (plot_coords radecs) @ [OutlineText] @ tra @ [Output]"
    by (rule main_completed)
  from p p' have eq: "tr0' = tr0" "opts' = opts" by simp_all
  note rd = rd'[unfolded eq] and mk = mk'[unfolded eq] and co = co'[unfolded eq]
    and ge = ge'[unfolded eq] and an = an'[unfolded eq] and tr = tr'[unfolded eq]
  note ev0 = parse_events_read[OF parse_args_tr[OF p]]
  from contours_reads[of env opts skymap metadata] co
  have trc: "annotation_texts trc = []" by simp
  from continents_reads[of env opts] ge
  have trg: "annotation_texts trg = []" "labelled_levels trg = []" "label_formats trg = []"
    by simp_all
  from marker_positions_reads[of env opts metadata] mk
  have trm: "annotation_texts trm = []" "labelled_levels trm = []" "label_formats trm = []"
    by simp_all
  from annotation_reads[of env opts metadata cls area] an
  have tra: "labelled_levels tra = []" "label_formats tra = []" by simp_all
  have "annotation_texts (fst (main env argv)) = annotation_texts tra"
    and "labelled_levels (fst (main env argv)) = labelled_levels trc"
    and "label_formats (fst (main env argv)) = label_formats trc"
    unfolding tr using ev0 trc trg trm tra
    by (simp_all add: reader_simps drawn_map_reads colorbar_reads plot_coords_reads)
  with rd ns ar co an show ?thesis by (rule that)
qed

subsection \<open>The annotated areas\<close>

text \<open>
  C3. On a completed run with \<open>--annotate\<close> and \<open>--contour\<close>, the line of the
  annotation for the percentage \<open>p\<close> reports \<open>np_round (N * A)\<close> square degrees, where
  \<open>A\<close> is the pixel area and \<open>N\<close> is the number of pixels whose credible level, times
  100, is strictly below \<open>p\<close>. Here \<open>np_round\<close> is \<open>np.round(...).astype(int)\<close>: the
  rounding to the nearest integer, a half going to the even neighbour, for every
  value within the 64-bit range (\<open>np_round_in_range\<close>).
\<close>

theorem annotated_area_counts_pixels_below_level:
  assumes c: "snd (main env argv) = Inr ()"
    and p: "parse_args env argv = (tr0, Inr opts)"
    and an: "annotate opts"
    and lv: "contour opts = Some levels" "levels \<noteq> []"
    and rd: "read_sky_map env (name (input opts)) = Inr (skymap, metadata)"
    and ns: "npix2nside env (length skymap) = Inr nside"
    and ar: "nside2pixarea env nside = Inr area"
  shows "\<exists>levs. find_greedy_credible_levels env skymap = Inr levs \<and>
           annotation_texts (fst (main env argv)) =
             [join [CHR 0x0A]
               (event_id_text env metadata @
                map (\<lambda>p. area_line (np_round p)
                       (np_round (real (length (filter (\<lambda>c. c < p) (map (\<lambda>x. 100 * x) levs))) *
                                  area)))
                  levels)]"
proof -
  from c p obtain skymap' metadata' nside' area' trc cls tra where
    rd': "read_sky_map env (name (input opts)) = Inr (skymap', metadata')"
    and ns': "npix2nside env (length skymap') = Inr nside'"
    and ar': "nside2pixarea env nside' = Inr area'"
    and co: "add_contours env opts skymap' metadata' = (trc, Inr cls)"
    and at: "annotation env opts metadata' cls area' = (tra, Inr ())"
    and tx: "annotation_texts (fst (main env argv)) = annotation_texts tra"
    by (rule annotation_completed)
  from rd rd' have e1: "skymap' = skymap" "metadata' = metadata" by simp_all
  with ns ns' have e2: "nside' = nside" by simp
  with ar ar' have e3: "area' = area" by simp
  from contours_result[OF co] lv e1 obtain levs where
    g: "find_greedy_credible_levels env skymap = Inr levs"
    and cls: "cls = Some (map (\<lambda>x. 100 * x) levs)" by auto
  from at e1 e3 cls
  have "annotation_texts tra =
          annotation_texts (fst (annotation env opts metadata (Some (map (\<lambda>x. 100 * x) levs)) area))"
    by simp
  with tx g show ?thesis
    by (simp add: annotation_areas[OF an lv] reader_simps searchsorted_sort)
qed

subsection \<open>A missing event identifier in the annotation\<close>

text \<open>
  C5, as amended. With \<open>--annotate\<close>, without \<open>--inj-database\<close>, and a metadata
  without \<open>objid\<close>, the missing identifier is skipped: the marker block makes no
  lookup, the annotation block lets no \<open>KeyError\<close> escape, and on a completed run the
  annotation has no \<open>event ID:\<close> line: with \<open>--contour\<close> it consists of the area
  lines, one per percentage, and without it the text is empty.
\<close>

theorem missing_objid_is_skipped_without_injection:
  assumes p: "parse_args env argv = (tr0, Inr opts)"
    and rd: "read_sky_map env (name (input opts)) = Inr (skymap, metadata)"
    and ns: "npix2nside env (length skymap) = Inr nside"
    and ar: "nside2pixarea env nside = Inr area"
    and an: "annotate opts"
    and db: "inj_database opts = None"
    and no: "metadata ''objid'' = None"
  shows "marker_positions env opts metadata = ([], Inr (radec opts))
       \<and> (\<forall>cls a k. snd (annotation env opts metadata cls a) \<noteq> Inl (KeyError k))
       \<and> (snd (main env argv) = Inr () \<longrightarrow>
            (contour opts = None \<longrightarrow> annotation_texts (fst (main env argv)) = [[]]) \<and>
            (\<forall>levels. contour opts = Some levels \<and> levels \<noteq> [] \<longrightarrow>
               (\<exists>levs. find_greedy_credible_levels env skymap = Inr levs \<and>
                  annotation_texts (fst (main env argv)) =
                    [join [CHR 0x0A]
                       (map (\<lambda>p. area_line (np_round p)
                               (np_round (real (searchsorted (sort (map (\<lambda>x. 100 * x) levs)) p) *
                                          area))) levels)])))"
proof -
  from no have ev: "event_id_text env metadata = []" by (simp add: event_id_text_def)
  have a: "marker_positions env opts metadata = ([], Inr (radec opts))"
    using db by (rule marker_positions_none)
  have b: "snd (annotation env opts metadata cls a) \<noteq> Inl (KeyError k)" for cls a k
    using an no
    by (auto simp: annotation_def run_defs snd_seq Let_def split: option.splits)
  have c: "(contour opts = None \<longrightarrow> annotation_texts (fst (main env argv)) = [[]]) \<and>
            (\<forall>levels. contour opts = Some levels \<and> levels \<noteq> [] \<longrightarrow>
               (\<exists>levs. find_greedy_credible_levels env skymap = Inr levs \<and>
                  annotation_texts (fst (main env argv)) =
                    [join [CHR 0x0A]
                       (map (\<lambda>p. area_line (np_round p)
                               (np_round (real (searchsorted (sort (map (\<lambda>x. 100 * x) levs)) p) *
                                          area))) levels)]))"
    if fin: "snd (main env argv) = Inr ()"
  proof -
    from fin p obtain skymap' metadata' nside' area' trc cls tra where
      rd': "read_sky_map env (name (input opts)) = Inr (skymap', metadata')"
      and ns': "npix2nside env (length skymap') = Inr nside'"
      and ar': "nside2pixarea env nside' = Inr area'"
      and co: "add_contours env opts skymap' metadata' = (trc, Inr cls)"
      and at: "annotation env opts metadata' cls area' = (tra, Inr ())"
      and tx: "annotation_texts (fst (main env argv)) = annotation_texts tra"
      by (rule annotation_completed)
    from rd rd' have e1: "skymap' = skymap" "metadata' = metadata" by simp_all
    with ns ns' have e2: "nside' = nside" by simp
    with ar ar' have e3: "area' = area" by simp
    note co = co[unfolded e1] and at = at[unfolded e1 e3]
    have plain: "annotation_texts (fst (main env argv)) = [[]]" if "contour opts = None"
    proof -
      from that have "contour opts = None \<or> contour opts = Some []" by simp
      from at annotation_plain[OF an this, of env metadata cls area]
      have "tra = [AxText 1 1 (join [CHR 0x0A] (event_id_text env metadata)) ''right'']"
        by simp
      with tx ev show ?thesis by (simp add: reader_simps)
    qed
    have areas: "\<exists>levs. find_greedy_credible_levels env skymap = Inr levs \<and>
                  annotation_texts (fst (main env argv)) =
                    [join [CHR 0x0A]
                       (map (\<lambda>p. area_line (np_round p)
                               (np_round (real (searchsorted (sort (map (\<lambda>x. 100 * x) levs)) p) *
                                          area))) levels)]"
      if lv: "contour opts = Some levels" "levels \<noteq> []" for levels
    proof -
      from contours_result[OF co] lv obtain levs where
        g: "find_greedy_credible_levels env skymap = Inr levs"
        and cls: "cls = Some (map (\<lambda>x. 100 * x) levs)" by auto
      from at cls
      have "annotation_texts tra =
          annotation_texts (fst (annotation env opts metadata (Some (map (\<lambda>x. 100 * x) levs)) area))"
        by simp
      with tx g ev show ?thesis
        by (simp add: annotation_areas[OF an lv] reader_simps)
    qed
    from plain areas show ?thesis by blast
  qed
  from a b c show ?thesis by blast
qed

subsection \<open>Levels labelled and percentages annotated\<close>



lemma labels_completed:
  assumes c: "snd (main env argv) = Inr ()"
    and p: "parse_args env argv = (tr0, Inr opts)"
    and lv: "contour opts = Some levels" "levels \<noteq> []"
  shows "labelled_levels (fst (main env argv)) = [levels]
       \<and> label_formats (fst (main env argv)) =
           [if usetex env then ''%g'' @ [CHR 0x5C] @ ''%%'' else ''%g%%'']"
proof -
  from c p obtain skymap metadata nside area trc cls tra where
    co: "add_contours env opts skymap metadata = (trc, Inr cls)"
    and ll: "labelled_levels (fst (main env argv)) = labelled_levels trc"
    and lf: "label_formats (fst (main env argv)) = label_formats trc"
    by (rule annotation_completed)
  from contours_result[OF co] lv obtain levs nest where
    "trc = [ContourHpx (map (\<lambda>x. 100 * x) levs) ''ICRS'' nest ''k'' (1 / 2) levels,
            Clabel (if usetex env then ''%g'' @ [CHR 0x5C] @ ''%%'' else ''%g%%'') 6 True]"
    by auto
  with ll lf show ?thesis by (simp add: reader_simps)
qed


section \<open>Runs of the concrete installation\<close>

lemma demo_read:
  "read_sky_map demo_libs ''<stdin>'' = Inr (demo_skymap, demo_metadata)"
  "read_sky_map demo_libs ''map.fits'' = Inr (demo_skymap, demo_metadata)"
  "read_sky_map demo_libs ''bare.fits'' = Inr (demo_skymap, demo_metadata(''objid'' := None))"
  "read_sky_map demo_libs ''other.fits'' = Inr (demo_skymap, demo_metadata(''objid'' \<mapsto> PyInt 8))"
  "read_sky_map demo_libs ''twin.fits'' = Inr (demo_skymap, demo_metadata(''objid'' \<mapsto> PyInt 9))"
  "read_sky_map demo_libs ''notime.fits'' = Inr (demo_skymap, demo_metadata(''gps_time'' := None))"
  "read_sky_map demo_libs ''noorder.fits'' = Inr (demo_skymap, demo_metadata(''nest'' := None))"
  by (simp_all add: demo_libs_def demo_files_def)

lemma demo_open:
  "can_open demo_libs ''map.fits''" "can_open demo_libs ''bare.fits''"
  "can_open demo_libs ''other.fits''" "can_open demo_libs ''twin.fits''"
  "can_open demo_libs ''notime.fits''" "can_open demo_libs ''noorder.fits''"
  by (simp_all add: demo_libs_def demo_files_def)

lemma demo_healpix:
  "npix2nside demo_libs (length demo_skymap) = Inr 1"
  "nside2pixarea demo_libs 1 = Inr (13751 / 4)"
  by (simp_all add: demo_libs_def demo_skymap_def)

lemma demo_time: "gps_to_utc_isot demo_libs t = Inr ''2015-09-14T09:50:45.000''"
  by (simp add: demo_libs_def)

lemma demo_vmax: "array_max (map (\<lambda>x. x / (13751 / 4)) demo_skymap) = Inr (2 / 13751)"
  by (simp add: array_max_def demo_skymap_def)

lemma demo_output: "opts_output demo_libs = None"
  by (simp add: demo_libs_def)

lemma demo_greedy:
  "find_greedy_credible_levels demo_libs demo_skymap =
     Inr [1/2, 7/10, 4/5, 9/10, 9/10, 47/50, 97/100, 99/100, 99/100, 1, 1, 1]"
  by (simp add: demo_libs_def demo_skymap_def)

lemma demo_main_run:
  assumes p: "parse_args demo_libs argv = (tr0, Inr opts)"
    and rd: "read_sky_map demo_libs (name (input opts)) = Inr (demo_skymap, md)"
    and gt: "md ''gps_time'' = Some t" and ne: "md ''nest'' = Some nest"
    and co: "add_contours demo_libs opts demo_skymap md = (trc, Inr cls)"
    and ge: "add_continents demo_libs opts = (trg, Inr ())"
    and mk: "marker_positions demo_libs opts md = (trm, Inr radecs)"
    and an: "annotation demo_libs opts md cls (13751 / 4) = (tra, Inr ())"
  shows "main demo_libs argv =
      (tr0 @ drawn_map opts demo_skymap (13751 / 4) ''2015-09-14T09:50:45.000'' (2 / 13751) nest @
       fst (add_colorbar opts) @ trc @ trg @
       trm @ fst (plot_coords radecs) @ [OutlineText] @ tra @ [Output], Inr ())"
  by (rule main_run[OF p rd demo_healpix gt demo_time demo_vmax ne co ge mk an demo_output])

lemmas parse_steps = parse_args_def run_defs file_type_rb_def input_default_def parser_defaults_def
  demo_open

lemma demo_parse_celestial: "parse_args demo_libs [] = ([], Inr parser_defaults)"
  by (simp add: parse_steps)

lemma demo_parse_geo: "parse_args demo_libs [Arg_geo] = ([], Inr (parser_defaults\<lparr>geo := True\<rparr>))"
  by (simp add: parse_steps)

lemma demo_meta: "demo_metadata ''gps_time'' = Some (PyFloat 1126259462)"
  "demo_metadata ''nest'' = Some (PyBool False)" "demo_metadata ''objid'' = Some (PyInt 7)"
  by (simp_all add: demo_metadata_def)

lemma demo_geometries:
  "load_geometries demo_libs n = Inr [[(0, 0), (10, 5)], [(20, 30), (25, 35), (30, 40)]]"
  by (simp add: demo_libs_def)

lemma demo_celestial_completes: "snd (main demo_libs []) = Inr ()"
proof -
  let ?o = parser_defaults
  have rd: "read_sky_map demo_libs (name (input ?o)) = Inr (demo_skymap, demo_metadata)"
    by (simp add: parser_defaults_def demo_read)
  have co: "add_contours demo_libs ?o demo_skymap demo_metadata = ([], Inr None)"
    by (rule add_contours_none) (simp add: parser_defaults_def)
  have ge: "add_continents demo_libs ?o = ([], Inr ())"
    by (simp add: add_continents_eq parser_defaults_def)
  have mk: "marker_positions demo_libs ?o demo_metadata = ([], Inr (radec ?o))"
    by (rule marker_positions_none) (simp add: parser_defaults_def)
  have an: "annotation demo_libs ?o demo_metadata None (13751 / 4) = ([], Inr ())"
    by (rule annotation_off) (simp add: parser_defaults_def)
  show ?thesis
    by (simp add: demo_main_run[OF demo_parse_celestial rd demo_meta(1,2) co ge mk an])
qed

lemma demo_geo_completes: "snd (main demo_libs [Arg_geo]) = Inr ()"
proof -
  let ?o = "parser_defaults\<lparr>geo := True\<rparr>"
  have rd: "read_sky_map demo_libs (name (input ?o)) = Inr (demo_skymap, demo_metadata)"
    by (simp add: parser_defaults_def demo_read)
  have co: "add_contours demo_libs ?o demo_skymap demo_metadata = ([], Inr None)"
    by (rule add_contours_none) (simp add: parser_defaults_def)
  have "\<exists>trg. add_continents demo_libs ?o = (trg, Inr ())"
    by (simp add: add_continents_eq demo_geometries)
  then obtain trg where ge: "add_continents demo_libs ?o = (trg, Inr ())" ..
  have mk: "marker_positions demo_libs ?o demo_metadata = ([], Inr (radec ?o))"
    by (rule marker_positions_none) (simp add: parser_defaults_def)
  have an: "annotation demo_libs ?o demo_metadata None (13751 / 4) = ([], Inr ())"
    by (rule annotation_off) (simp add: parser_defaults_def)
  show ?thesis
    by (simp add: demo_main_run[OF demo_parse_geo rd demo_meta(1,2) co ge mk an])
qed

subsection \<open>Plain runs\<close>

theorem projection_follows_geo_flag_witness:
  "snd (main demo_libs [Arg_geo]) = Inr ()
   \<and> projections (fst (main demo_libs [Arg_geo])) = [''geo degrees mollweide'']
   \<and> snd (main demo_libs []) = Inr ()
   \<and> projections (fst (main demo_libs [])) = [''astro hours mollweide'']"
proof -
  note g = demo_geo_completes and c = demo_celestial_completes
  from projection_follows_geo_flag[of demo_libs "[Arg_geo]"] g
  have "projections (fst (main demo_libs [Arg_geo])) =
          [if Arg_geo \<in> set [Arg_geo] then ''geo degrees mollweide'' else ''astro hours mollweide'']"
    by (elim conjE impE) assumption
  then have pg: "projections (fst (main demo_libs [Arg_geo])) = [''geo degrees mollweide'']"
    by simp
  from projection_follows_geo_flag[of demo_libs "[]"] c
  have "projections (fst (main demo_libs [])) =
          [if Arg_geo \<in> set [] then ''geo degrees mollweide'' else ''astro hours mollweide'']"
    by (elim conjE impE) assumption
  then have pc: "projections (fst (main demo_libs [])) = [''astro hours mollweide'']"
    by simp
  from g pg c pc show ?thesis by (intro conjI)
qed

subsection \<open>Annotated runs\<close>

lemma demo_cls:
  "sort (map (\<lambda>x. 100 * x) [1/2, 7/10, 4/5, 9/10, 9/10, 47/50, 97/100, 99/100, 99/100, 1, 1, 1 :: real]) =
     [50, 70, 80, 90, 90, 94, 97, 99, 99, 100, 100, 100]"
  by simp

lemma demo_usetex: "usetex demo_libs = False"
  by (simp add: demo_libs_def)

lemma demo_annotated:
  assumes p: "parse_args demo_libs argv = (tr0, Inr opts)"
    and rd: "read_sky_map demo_libs (name (input opts)) = Inr (demo_skymap, md)"
    and gt: "md ''gps_time'' = Some t" and ne: "md ''nest'' = Some nest"
    and an: "annotate opts"
    and lv: "contour opts = Some levels" "levels \<noteq> []"
    and ge: "\<not> geo opts"
    and db: "inj_database opts = None"
  shows "snd (main demo_libs argv) = Inr ()
    \<and> labelled_levels (fst (main demo_libs argv)) = [levels]
    \<and> label_formats (fst (main demo_libs argv)) = [''%g%%'']
    \<and> annotation_texts (fst (main demo_libs argv)) =
        [join [CHR 0x0A]
           (event_id_text demo_libs md @
            map (\<lambda>p. area_line (np_round p)
                   (np_round (real (searchsorted
                       [50, 70, 80, 90, 90, 94, 97, 99, 99, 100, 100, 100] p) * (13751 / 4))))
              levels)]"
proof -
  let ?cls = "map (\<lambda>x. 100 * x) [1/2, 7/10, 4/5, 9/10, 9/10, 47/50, 97/100, 99/100, 99/100, 1, 1, 1 :: real]"
  have co: "add_contours demo_libs opts demo_skymap md =
      ([ContourHpx ?cls ''ICRS'' nest ''k'' (1 / 2) levels, Clabel ''%g%%'' 6 True], Inr (Some ?cls))"
    by (simp add: add_contours_some[where metadata=md, OF lv ne] demo_greedy demo_usetex)
  have cg: "add_continents demo_libs opts = ([], Inr ())"
    using ge by (simp add: add_continents_eq)
  note mk = marker_positions_none[OF db, of demo_libs md]
  note at = annotation_areas[OF an lv, of demo_libs md ?cls "13751 / 4"]
  note run = demo_main_run[OF p rd gt ne co cg mk at]
  have c: "snd (main demo_libs argv) = Inr ()" by (simp add: run)
  note lab = labels_completed[OF c p lv]
  from c p obtain skymap' metadata' nside' area' trc cls tra where
    rd': "read_sky_map demo_libs (name (input opts)) = Inr (skymap', metadata')"
    and ns': "npix2nside demo_libs (length skymap') = Inr nside'"
    and ar': "nside2pixarea demo_libs nside' = Inr area'"
    and co': "add_contours demo_libs opts skymap' metadata' = (trc, Inr cls)"
    and at': "annotation demo_libs opts metadata' cls area' = (tra, Inr ())"
    and tx: "annotation_texts (fst (main demo_libs argv)) = annotation_texts tra"
    by (rule annotation_completed)
  from rd rd' have e1: "skymap' = demo_skymap" "metadata' = md" by simp_all
  with ns' demo_healpix have e2: "nside' = 1" by simp
  with ar' demo_healpix have e3: "area' = 13751 / 4" by simp
  from co co' e1 have e4: "cls = Some ?cls" by simp
  from at' e1 e3 e4 have "annotation_texts tra =
     annotation_texts (fst (annotation demo_libs opts md (Some ?cls) (13751 / 4)))" by simp
  with tx have "annotation_texts (fst (main demo_libs argv)) =
        [join [CHR 0x0A]
           (event_id_text demo_libs md @
            map (\<lambda>p. area_line (np_round p)
                   (np_round (real (searchsorted (sort ?cls) p) * (13751 / 4))))
              levels)]"
    by (simp only: at fst_conv reader_simps list.case event.case append_Nil2)
  then have "annotation_texts (fst (main demo_libs argv)) =
        [join [CHR 0x0A]
           (event_id_text demo_libs md @
            map (\<lambda>p. area_line (np_round p)
                   (np_round (real (searchsorted
                       [50, 70, 80, 90, 90, 94, 97, 99, 99, 100, 100, 100] p) * (13751 / 4))))
              levels)]"
    by (simp only: demo_cls)
  with c lab show ?thesis by (simp add: demo_usetex)
qed

lemma demo_parse_file:
  "can_open demo_libs f \<Longrightarrow> f \<noteq> ''-'' \<Longrightarrow>
   parse_args demo_libs [Arg_input f] =
     ([Open f ''rb''], Inr (parser_defaults\<lparr>input := OpenedFile f\<rparr>))"
  by (simp add: parse_args_def run_defs file_type_rb_def)

lemma demo_parse_radec:
  "parse_args demo_libs [Arg_radec [10, 20], Arg_radec [30, - 40]] =
     ([], Inr (parser_defaults\<lparr>radec := [(10, 20), (30, - 40)]\<rparr>))"
  by (simp add: parse_steps)

lemma demo_sqlite: "sqlite_type_r demo_libs ''inj.sqlite'' = Inr ''inj.sqlite''"
  by (simp add: demo_libs_def)

lemma demo_parse_inj:
  "parse_args demo_libs [Arg_inj_database ''inj.sqlite''] =
     ([SQLiteOpen ''inj.sqlite''], Inr (parser_defaults\<lparr>inj_database := Some ''inj.sqlite''\<rparr>))"
  by (simp add: parse_steps demo_sqlite)

lemma demo_parse_file_inj:
  "can_open demo_libs f \<Longrightarrow> f \<noteq> ''-'' \<Longrightarrow>
   parse_args demo_libs [Arg_input f, Arg_inj_database ''inj.sqlite''] =
     ([Open f ''rb'', SQLiteOpen ''inj.sqlite''],
      Inr (parser_defaults\<lparr>inj_database := Some ''inj.sqlite'', input := OpenedFile f\<rparr>))"
  by (simp add: parse_args_def run_defs file_type_rb_def demo_sqlite)

lemma demo_execute:
  "execute demo_libs db q (PyInt 7) = Inr [(pi, pi / 6)]"
  "execute demo_libs db q (PyInt 8) = Inr []"
  "execute demo_libs db q (PyInt 9) = Inr [(0, 0), (1, 1)]"
  by (simp_all add: demo_libs_def)

lemmas text_steps = searchsorted_def np_round_def round_half_even_def astype_int_def Let_def area_line_def format_d_def
  decimal.simps digit_def event_id_text_def format_obj_def

lemma demo_text_50_90:
  "join [CHR 0x0A]
     (map (\<lambda>p. area_line (np_round p)
            (np_round (real (searchsorted
                [50, 70, 80, 90, 90, 94, 97, 99, 99, 100, 100, 100] p) * (13751 / 4))))
         [50, 90]) =
   ''50% area: 0 deg'' @ [CHR 0xB2, CHR 0x0A] @ ''90% area: 10313 deg'' @ [CHR 0xB2]"
  by (simp add: text_steps)

lemma demo_plain_completes:
  assumes p: "parse_args demo_libs argv = (tr0, Inr opts)"
    and rd: "read_sky_map demo_libs (name (input opts)) = Inr (demo_skymap, md)"
    and gt: "md ''gps_time'' = Some t" and ne: "md ''nest'' = Some nest"
    and nc: "contour opts = None" and ng: "\<not> geo opts"
    and db: "inj_database opts = None" and na: "\<not> annotate opts"
  shows "snd (main demo_libs argv) = Inr ()"
proof -
  have co: "add_contours demo_libs opts demo_skymap md = ([], Inr None)"
    using nc by (simp add: add_contours_none)
  have cg: "add_continents demo_libs opts = ([], Inr ())"
    using ng by (simp add: add_continents_eq)
  note mk = marker_positions_none[OF db, of demo_libs md]
  note an = annotation_off[OF na, of demo_libs md None "13751 / 4"]
  show ?thesis by (simp add: demo_main_run[OF p rd gt ne co cg mk an])
qed

lemma demo_inj_completes:
  assumes p: "parse_args demo_libs argv = (tr0, Inr opts)"
    and rd: "read_sky_map demo_libs (name (input opts)) = Inr (demo_skymap, demo_metadata)"
    and nc: "contour opts = None" and ng: "\<not> geo opts"
    and db: "inj_database opts = Some db" and na: "\<not> annotate opts"
  shows "snd (main demo_libs argv) = Inr ()"
proof -
  have co: "add_contours demo_libs opts demo_skymap demo_metadata = ([], Inr None)"
    using nc by (simp add: add_contours_none)
  have cg: "add_continents demo_libs opts = ([], Inr ())"
    using ng by (simp add: add_continents_eq)
  have mk: "marker_positions demo_libs opts demo_metadata =
      ([Execute db query (PyInt 7)], Inr (radec opts @ [(rad2deg pi, rad2deg (pi / 6))]))"
    by (simp add: marker_positions_some[OF db] demo_meta demo_execute unpack_single_def)
  note an = annotation_off[OF na, of demo_libs demo_metadata None "13751 / 4"]
  show ?thesis by (simp add: demo_main_run[OF p rd demo_meta(1,2) co cg mk an])
qed

lemma defaults_fields:
  "contour parser_defaults = None" "\<not> geo parser_defaults" "inj_database parser_defaults = None"
  "\<not> annotate parser_defaults" "radec parser_defaults = []" "input parser_defaults = Stdin"
  by (simp_all add: parser_defaults_def)

theorem density_is_sky_map_over_pixel_area_witness:
  "snd (main demo_libs [Arg_input ''map.fits'']) = Inr ()
   \<and> imshow_arrays (fst (main demo_libs [Arg_input ''map.fits''])) =
       [map (\<lambda>x. x / (13751 / 4)) demo_skymap]"
proof -
  let ?o = "parser_defaults\<lparr>input := OpenedFile ''map.fits''\<rparr>"
  have p: "parse_args demo_libs [Arg_input ''map.fits''] = ([Open ''map.fits'' ''rb''], Inr ?o)"
    by (rule demo_parse_file) (simp_all add: demo_open)
  have rd: "read_sky_map demo_libs (name (input ?o)) = Inr (demo_skymap, demo_metadata)"
    by (simp add: demo_read)
  have c: "snd (main demo_libs [Arg_input ''map.fits'']) = Inr ()"
    by (rule demo_plain_completes[OF p rd demo_meta(1,2)]) (simp_all add: defaults_fields)
  have nz: "(13751 / 4 :: real) \<noteq> 0" by simp
  from density_is_sky_map_over_pixel_area[OF p rd demo_healpix nz] c
  have "imshow_arrays (fst (main demo_libs [Arg_input ''map.fits''])) =
       [map (\<lambda>x. x / (13751 / 4)) demo_skymap]"
    by blast
  with c show ?thesis by (intro conjI)
qed

theorem radec_pairs_are_star_markers_witness:
  "snd (main demo_libs [Arg_radec [10, 20], Arg_radec [30, - 40]]) = Inr ()
   \<and> markers (fst (main demo_libs [Arg_radec [10, 20], Arg_radec [30, - 40]])) =
       [(10, 20, ''deg'', ''*''), (30, - 40, ''deg'', ''*'')]
   \<and> markers (fst (main demo_libs [])) = []"
proof -
  let ?a = "[Arg_radec [10, 20], Arg_radec [30, - 40]]"
  let ?o = "parser_defaults\<lparr>radec := [(10, 20), (30, - 40)]\<rparr>"
  have rd: "read_sky_map demo_libs (name (input ?o)) = Inr (demo_skymap, demo_metadata)"
    by (simp add: demo_read defaults_fields)
  have c: "snd (main demo_libs ?a) = Inr ()"
    by (rule demo_plain_completes[OF demo_parse_radec rd demo_meta(1,2)])
       (simp_all add: defaults_fields)
  have r: "radec_args ?a = [(10, 20), (30, - 40)]" and i: "\<not> inj_given ?a"
    by (simp_all add: radec_args_def inj_given_def)
  have r0: "radec_args [] = []" and i0: "\<not> inj_given []"
    by (simp_all add: radec_args_def inj_given_def)
  from radec_pairs_are_star_markers[of demo_libs ?a] c i
  have "markers (fst (main demo_libs ?a)) = map star (radec_args ?a)" by blast
  then have m: "markers (fst (main demo_libs ?a)) =
       [(10, 20, ''deg'', ''*''), (30, - 40, ''deg'', ''*'')]"
    by (simp add: r star_def)
  from radec_pairs_are_star_markers[of demo_libs "[]"] r0 i0
  have m0: "markers (fst (main demo_libs [])) = []" by blast
  from c m m0 show ?thesis by (intro conjI)
qed

theorem injection_marker_in_degrees_witness:
  "snd (main demo_libs [Arg_inj_database ''inj.sqlite'']) = Inr ()
   \<and> queries_executed (fst (main demo_libs [Arg_inj_database ''inj.sqlite''])) =
       [(''inj.sqlite'', query, PyInt 7)]
   \<and> markers (fst (main demo_libs [Arg_inj_database ''inj.sqlite''])) =
       [(180, 30, ''deg'', ''*'')]"
proof -
  let ?a = "[Arg_inj_database ''inj.sqlite'']"
  let ?o = "parser_defaults\<lparr>inj_database := Some ''inj.sqlite''\<rparr>"
  have rd: "read_sky_map demo_libs (name (input ?o)) = Inr (demo_skymap, demo_metadata)"
    by (simp add: demo_read defaults_fields)
  have db: "inj_database ?o = Some ''inj.sqlite''" by simp
  have c: "snd (main demo_libs ?a) = Inr ()"
    by (rule demo_inj_completes[OF demo_parse_inj rd _ _ db]) (simp_all add: defaults_fields)
  from injection_marker_in_degrees[OF c demo_parse_inj db]
  obtain skymap metadata objid lon lat where
    rd': "read_sky_map demo_libs (name (input ?o)) = Inr (skymap, metadata)"
    and ob: "metadata ''objid'' = Some objid"
    and ex: "execute demo_libs ''inj.sqlite'' query objid = Inr [(lon, lat)]"
    and qs: "queries_executed (fst (main demo_libs ?a)) = [(''inj.sqlite'', query, objid)]"
    and ms: "markers (fst (main demo_libs ?a)) =
               map star (radec ?o) @ [(lon * (180 / pi), lat * (180 / pi), ''deg'', ''*'')]"
    by blast
  from rd rd' have "metadata = demo_metadata" by simp
  with ob demo_meta have o7: "objid = PyInt 7" by simp
  with ex demo_execute have "lon = pi" "lat = pi / 6" by simp_all
  with ms have "markers (fst (main demo_libs ?a)) = [(180, 30, ''deg'', ''*'')]"
    by (simp add: defaults_fields)
  with c qs o7 show ?thesis by simp
qed

theorem missing_metadata_key_propagates_witness:
  "main demo_libs [Arg_input ''notime.fits''] =
     ([Open ''notime.fits'' ''rb'', ReadSkyMap ''notime.fits''], Inl (KeyError ''gps_time''))
   \<and> main demo_libs [Arg_input ''noorder.fits''] =
     ([Open ''noorder.fits'' ''rb'', ReadSkyMap ''noorder.fits'',
       Axes ''astro hours mollweide'' ''2015-09-14T09:50:45.000'', Grid],
      Inl (KeyError ''nest''))"
proof -
  let ?o1 = "parser_defaults\<lparr>input := OpenedFile ''notime.fits''\<rparr>"
  let ?o2 = "parser_defaults\<lparr>input := OpenedFile ''noorder.fits''\<rparr>"
  let ?m1 = "demo_metadata(''gps_time'' := None)"
  let ?m2 = "demo_metadata(''nest'' := None)"
  have p1: "parse_args demo_libs [Arg_input ''notime.fits''] = ([Open ''notime.fits'' ''rb''], Inr ?o1)"
    by (rule demo_parse_file) (simp_all add: demo_open)
  have p2: "parse_args demo_libs [Arg_input ''noorder.fits''] = ([Open ''noorder.fits'' ''rb''], Inr ?o2)"
    by (rule demo_parse_file) (simp_all add: demo_open)
  have r1: "read_sky_map demo_libs (name (input ?o1)) = Inr (demo_skymap, ?m1)"
    by (simp add: demo_read)
  have r2: "read_sky_map demo_libs (name (input ?o2)) = Inr (demo_skymap, ?m2)"
    by (simp add: demo_read)
  have k1: "?m1 ''gps_time'' = None" by simp
  have k2: "?m2 ''gps_time'' = Some (PyFloat 1126259462) \<and>
            gps_to_utc_isot demo_libs (PyFloat 1126259462) = Inr ''2015-09-14T09:50:45.000'' \<and>
            demo_skymap \<noteq> [] \<and> ?m2 ''nest'' = None"
    by (simp add: demo_meta demo_time demo_skymap_def)
  from missing_metadata_key_propagates[OF p1 r1 demo_healpix] k1
  have a: "main demo_libs [Arg_input ''notime.fits''] =
     ([Open ''notime.fits'' ''rb''] @ [ReadSkyMap (name (input ?o1))], Inl (KeyError ''gps_time''))"
    by blast
  from missing_metadata_key_propagates[OF p2 r2 demo_healpix] k2
  have b: "main demo_libs [Arg_input ''noorder.fits''] =
     ([Open ''noorder.fits'' ''rb''] @
      [ReadSkyMap (name (input ?o2)),
       Axes (if geo ?o2 then ''geo degrees mollweide'' else ''astro hours mollweide'')
         ''2015-09-14T09:50:45.000'', Grid],
      Inl (KeyError ''nest''))"
    by blast
  from a b show ?thesis by (simp add: defaults_fields)
qed

lemma demo_inj_opts:
  "contour (parser_defaults\<lparr>inj_database := Some db, input := OpenedFile f\<rparr>) = None"
  "\<not> geo (parser_defaults\<lparr>inj_database := Some db, input := OpenedFile f\<rparr>)"
  "inj_database (parser_defaults\<lparr>inj_database := Some db, input := OpenedFile f\<rparr>) = Some db"
  "name (input (parser_defaults\<lparr>inj_database := Some db, input := OpenedFile f\<rparr>)) = f"
  by (simp_all add: parser_defaults_def)

lemma demo_no_contours:
  "contour opts = None \<Longrightarrow> add_contours demo_libs opts demo_skymap md = ([], Inr None)"
  by (simp add: add_contours_none)

lemma demo_no_continents: "\<not> geo opts \<Longrightarrow> add_continents demo_libs opts = ([], Inr ())"
  by (simp add: add_continents_eq)

theorem injection_query_needs_exactly_one_row_witness:
  "snd (main demo_libs [Arg_input ''bare.fits'', Arg_inj_database ''inj.sqlite'']) =
     Inl (KeyError ''objid'')
   \<and> snd (main demo_libs [Arg_input ''other.fits'', Arg_inj_database ''inj.sqlite'']) =
     Inl (ValueError ''not enough values to unpack (expected 1, got 0)'')
   \<and> snd (main demo_libs [Arg_input ''twin.fits'', Arg_inj_database ''inj.sqlite'']) =
     Inl (ValueError ''too many values to unpack (expected 1)'')
   \<and> OutlineText \<in> set (fst (main demo_libs [Arg_input ''map.fits'', Arg_inj_database ''inj.sqlite'']))"
proof -
  let ?o = "\<lambda>f. parser_defaults\<lparr>inj_database := Some ''inj.sqlite'', input := OpenedFile f\<rparr>"
  have inst: "(md ''objid'' = None \<longrightarrow>
            snd (main demo_libs [Arg_input f, Arg_inj_database ''inj.sqlite'']) = Inl (KeyError ''objid'') \<and>
            queries_executed (fst (main demo_libs [Arg_input f, Arg_inj_database ''inj.sqlite''])) = [] \<and>
            OutlineText \<notin> set (fst (main demo_libs [Arg_input f, Arg_inj_database ''inj.sqlite''])))
       \<and> (\<forall>objid rows. md ''objid'' = Some objid \<and>
              execute demo_libs ''inj.sqlite'' query objid = Inr rows \<longrightarrow>
            queries_executed (fst (main demo_libs [Arg_input f, Arg_inj_database ''inj.sqlite''])) =
              [(''inj.sqlite'', query, objid)] \<and>
            (rows = [] \<longrightarrow>
               snd (main demo_libs [Arg_input f, Arg_inj_database ''inj.sqlite'']) =
                 Inl (ValueError ''not enough values to unpack (expected 1, got 0)'')) \<and>
            (1 < length rows \<longrightarrow>
               snd (main demo_libs [Arg_input f, Arg_inj_database ''inj.sqlite'']) =
                 Inl (ValueError ''too many values to unpack (expected 1)'')) \<and>
            (OutlineText \<in> set (fst (main demo_libs [Arg_input f, Arg_inj_database ''inj.sqlite''])))
              = (length rows = 1))"
    if f: "can_open demo_libs f" "f \<noteq> ''-''"
      and rd: "read_sky_map demo_libs f = Inr (demo_skymap, md)"
      and gt: "md ''gps_time'' = Some (PyFloat 1126259462)"
      and ne: "md ''nest'' = Some (PyBool False)"
    for f md
  proof -
    have rd': "read_sky_map demo_libs (name (input (?o f))) = Inr (demo_skymap, md)"
      using rd by (simp only: demo_inj_opts)
    show ?thesis
      by (rule injection_query_needs_exactly_one_row[OF demo_parse_file_inj[OF f] rd'
            demo_healpix gt demo_time demo_vmax ne
            demo_no_contours[OF demo_inj_opts(1)] demo_no_continents[OF demo_inj_opts(2)]
            demo_inj_opts(3)])
  qed
  have a: "snd (main demo_libs [Arg_input ''bare.fits'', Arg_inj_database ''inj.sqlite'']) =
     Inl (KeyError ''objid'')"
    using inst[OF demo_open(2) _ demo_read(3)] by (simp add: demo_meta)
  have b: "snd (main demo_libs [Arg_input ''other.fits'', Arg_inj_database ''inj.sqlite'']) =
     Inl (ValueError ''not enough values to unpack (expected 1, got 0)'')"
  proof -
    have o: "(demo_metadata(''objid'' \<mapsto> PyInt 8)) ''objid'' = Some (PyInt 8) \<and>
             execute demo_libs ''inj.sqlite'' query (PyInt 8) = Inr []"
      by (simp add: demo_execute)
    have "(demo_metadata(''objid'' \<mapsto> PyInt 8)) ''gps_time'' = Some (PyFloat 1126259462)"
      "(demo_metadata(''objid'' \<mapsto> PyInt 8)) ''nest'' = Some (PyBool False)"
      by (simp_all add: demo_meta)
    from inst[OF demo_open(3) _ demo_read(4) this] o show ?thesis by blast
  qed
  have c: "snd (main demo_libs [Arg_input ''twin.fits'', Arg_inj_database ''inj.sqlite'']) =
     Inl (ValueError ''too many values to unpack (expected 1)'')"
  proof -
    have o: "(demo_metadata(''objid'' \<mapsto> PyInt 9)) ''objid'' = Some (PyInt 9) \<and>
             execute demo_libs ''inj.sqlite'' query (PyInt 9) = Inr [(0, 0), (1, 1)]"
      by (simp add: demo_execute)
    have l: "1 < length [(0 :: real, 0 :: real), (1, 1)]" by simp
    have "(demo_metadata(''objid'' \<mapsto> PyInt 9)) ''gps_time'' = Some (PyFloat 1126259462)"
      "(demo_metadata(''objid'' \<mapsto> PyInt 9)) ''nest'' = Some (PyBool False)"
      by (simp_all add: demo_meta)
    from inst[OF demo_open(4) _ demo_read(5) this] o l show ?thesis by blast
  qed
  have d: "OutlineText \<in> set (fst (main demo_libs [Arg_input ''map.fits'', Arg_inj_database ''inj.sqlite'']))"
  proof -
    have o: "demo_metadata ''objid'' = Some (PyInt 7) \<and>
             execute demo_libs ''inj.sqlite'' query (PyInt 7) = Inr [(pi, pi / 6)]"
      by (simp add: demo_execute demo_meta)
    have l: "length [(pi, pi / 6)] = 1" by simp
    from inst[OF demo_open(1) _ demo_read(2) demo_meta(1,2)] o l show ?thesis by blast
  qed
  from a b c d show ?thesis by (intro conjI)
qed

lemma demo_parse_file_annotated:
  "can_open demo_libs f \<Longrightarrow> f \<noteq> ''-'' \<Longrightarrow> ls \<noteq> [] \<Longrightarrow>
   parse_args demo_libs [Arg_input f, Arg_annotate, Arg_contour ls] =
     ([Open f ''rb''],
      Inr (parser_defaults\<lparr>annotate := True, contour := Some ls, input := OpenedFile f\<rparr>))"
  by (simp add: parse_args_def run_defs file_type_rb_def)


lemma demo_parse_bare_annotated_inj:
  "parse_args demo_libs [Arg_input ''bare.fits'', Arg_annotate, Arg_inj_database ''inj.sqlite''] =
     ([Open ''bare.fits'' ''rb'', SQLiteOpen ''inj.sqlite''],
      Inr (parser_defaults\<lparr>annotate := True, inj_database := Some ''inj.sqlite'',
                             input := OpenedFile ''bare.fits''\<rparr>))"
  by (simp add: parse_steps demo_sqlite)

lemma demo_bare_opts:
  "annotate (parser_defaults\<lparr>annotate := True, contour := Some ls, input := OpenedFile f\<rparr>)"
  "contour (parser_defaults\<lparr>annotate := True, contour := Some ls, input := OpenedFile f\<rparr>) = Some ls"
  "\<not> geo (parser_defaults\<lparr>annotate := True, contour := Some ls, input := OpenedFile f\<rparr>)"
  "inj_database (parser_defaults\<lparr>annotate := True, contour := Some ls, input := OpenedFile f\<rparr>) = None"
  "name (input (parser_defaults\<lparr>annotate := True, contour := Some ls, input := OpenedFile f\<rparr>)) = f"
  by (simp_all add: parser_defaults_def)

lemma demo_event_id: "event_id_text demo_libs demo_metadata = [''event ID: 7'']"
  by (simp add: event_id_text_def demo_meta format_obj_def format_d_def decimal.simps digit_def)

lemma demo_count_50_90:
  "map (\<lambda>p. area_line (np_round p)
         (np_round (real (length (filter (\<lambda>c. c < p)
            (map (\<lambda>x. 100 * x)
               [1/2, 7/10, 4/5, 9/10, 9/10, 47/50, 97/100, 99/100, 99/100, 1, 1, 1]))) *
          (13751 / 4))))
      [50, 90] =
   [''50% area: 0 deg'' @ [CHR 0xB2], ''90% area: 10313 deg'' @ [CHR 0xB2]]"
  by (simp add: text_steps)

text \<open>The annotated run of \<open>map.fits\<close> with the given percentages.\<close>

lemma demo_map_annotated:
  assumes ls: "ls \<noteq> []"
  shows "snd (main demo_libs [Arg_input ''map.fits'', Arg_annotate, Arg_contour ls]) = Inr ()"
proof -
  let ?o = "parser_defaults\<lparr>annotate := True, contour := Some ls, input := OpenedFile ''map.fits''\<rparr>"
  have p: "parse_args demo_libs [Arg_input ''map.fits'', Arg_annotate, Arg_contour ls] =
     ([Open ''map.fits'' ''rb''], Inr ?o)"
    by (rule demo_parse_file_annotated[OF demo_open(1) _ ls]) simp
  have rd: "read_sky_map demo_libs (name (input ?o)) = Inr (demo_skymap, demo_metadata)"
    by (simp only: demo_bare_opts demo_read)
  from demo_annotated[OF p rd demo_meta(1,2) demo_bare_opts(1,2) ls demo_bare_opts(3,4)]
  show ?thesis by blast
qed

theorem annotated_area_counts_pixels_below_level_witness:
  "snd (main demo_libs [Arg_input ''map.fits'', Arg_annotate, Arg_contour [50, 90]]) = Inr ()
   \<and> annotation_texts (fst (main demo_libs [Arg_input ''map.fits'', Arg_annotate, Arg_contour [50, 90]])) =
       [''event ID: 7'' @ [CHR 0x0A] @ ''50% area: 0 deg'' @ [CHR 0xB2, CHR 0x0A] @
        ''90% area: 10313 deg'' @ [CHR 0xB2]]"
proof -
  let ?a = "[Arg_input ''map.fits'', Arg_annotate, Arg_contour [50, 90]]"
  let ?o = "parser_defaults\<lparr>annotate := True, contour := Some [50, 90],
                             input := OpenedFile ''map.fits''\<rparr>"
  have ne: "[50, 90 :: real] \<noteq> []" by simp
  have p: "parse_args demo_libs ?a = ([Open ''map.fits'' ''rb''], Inr ?o)"
    by (rule demo_parse_file_annotated[OF demo_open(1) _ ne]) simp
  have rd: "read_sky_map demo_libs (name (input ?o)) = Inr (demo_skymap, demo_metadata)"
    by (simp only: demo_bare_opts demo_read)
  note c = demo_map_annotated[OF ne]
  from annotated_area_counts_pixels_below_level[OF c p demo_bare_opts(1,2) ne rd demo_healpix]
  obtain levs where g: "find_greedy_credible_levels demo_libs demo_skymap = Inr levs"
    and t: "annotation_texts (fst (main demo_libs ?a)) =
             [join [CHR 0x0A]
               (event_id_text demo_libs demo_metadata @
                map (\<lambda>p. area_line (np_round p)
                       (np_round (real (length (filter (\<lambda>c. c < p) (map (\<lambda>x. 100 * x) levs))) *
                                  (13751 / 4))))
                  [50, 90])]"
    by blast
  from g demo_greedy
  have "levs = [1/2, 7/10, 4/5, 9/10, 9/10, 47/50, 97/100, 99/100, 99/100, 1, 1, 1]" by simp
  with t have "annotation_texts (fst (main demo_libs ?a)) =
       [''event ID: 7'' @ [CHR 0x0A] @ ''50% area: 0 deg'' @ [CHR 0xB2, CHR 0x0A] @
        ''90% area: 10313 deg'' @ [CHR 0xB2]]"
    by (simp only: demo_count_50_90 demo_event_id) simp
  with c show ?thesis by (intro conjI)
qed

theorem missing_objid_is_skipped_without_injection_witness:
  "snd (main demo_libs [Arg_input ''bare.fits'', Arg_annotate, Arg_contour [50, 90]]) = Inr ()
   \<and> marker_positions demo_libs
        (parser_defaults\<lparr>annotate := True, contour := Some [50, 90],
                           input := OpenedFile ''bare.fits''\<rparr>)
        (demo_metadata(''objid'' := None)) = ([], Inr [])
   \<and> annotation_texts
       (fst (main demo_libs [Arg_input ''bare.fits'', Arg_annotate, Arg_contour [50, 90]])) =
       [''50% area: 0 deg'' @ [CHR 0xB2, CHR 0x0A] @ ''90% area: 10313 deg'' @ [CHR 0xB2]]"
proof -
  let ?a = "[Arg_input ''bare.fits'', Arg_annotate, Arg_contour [50, 90]]"
  let ?o = "parser_defaults\<lparr>annotate := True, contour := Some [50, 90],
                             input := OpenedFile ''bare.fits''\<rparr>"
  let ?md = "demo_metadata(''objid'' := None)"
  have ne: "[50, 90 :: real] \<noteq> []" by simp
  have p: "parse_args demo_libs ?a = ([Open ''bare.fits'' ''rb''], Inr ?o)"
    by (rule demo_parse_file_annotated[OF demo_open(2) _ ne]) simp
  have rd: "read_sky_map demo_libs (name (input ?o)) = Inr (demo_skymap, ?md)"
    by (simp only: demo_bare_opts demo_read)
  have gt: "?md ''gps_time'' = Some (PyFloat 1126259462)"
    and nst: "?md ''nest'' = Some (PyBool False)" and no: "?md ''objid'' = None"
    by (simp_all add: demo_meta)
  from demo_annotated[OF p rd gt nst demo_bare_opts(1,2) ne demo_bare_opts(3,4)]
  have c: "snd (main demo_libs ?a) = Inr ()" by blast
  note t = missing_objid_is_skipped_without_injection[OF p rd demo_healpix
      demo_bare_opts(1) demo_bare_opts(4) no]
  from t have m: "marker_positions demo_libs ?o ?md = ([], Inr (radec ?o))" by blast
  have "radec ?o = []" by (simp add: parser_defaults_def)
  with m have m': "marker_positions demo_libs ?o ?md = ([], Inr [])" by simp
  have lv: "contour ?o = Some [50, 90] \<and> [50, 90 :: real] \<noteq> []"
    by (simp only: demo_bare_opts) simp
  from t c lv obtain levs where g: "find_greedy_credible_levels demo_libs demo_skymap = Inr levs"
    and tx: "annotation_texts (fst (main demo_libs ?a)) =
      [join [CHR 0x0A]
         (map (\<lambda>p. area_line (np_round p)
                 (np_round (real (searchsorted (sort (map (\<lambda>x. 100 * x) levs)) p) *
                            (13751 / 4)))) [50, 90])]"
    by blast
  from g demo_greedy
  have "levs = [1/2, 7/10, 4/5, 9/10, 9/10, 47/50, 97/100, 99/100, 99/100, 1, 1, 1]" by simp
  with tx have "annotation_texts (fst (main demo_libs ?a)) =
       [''50% area: 0 deg'' @ [CHR 0xB2, CHR 0x0A] @ ''90% area: 10313 deg'' @ [CHR 0xB2]]"
    by (simp only: demo_cls demo_text_50_90)
  with c m' show ?thesis by (intro conjI)
qed

text \<open>
  C5, as stated, fails. With \<open>--annotate --inj-database\<close> and a metadata without
  \<open>objid\<close>, the unguarded lookup of line 130 raises \<open>KeyError\<close> before the annotation
  is reached: the exception escapes and no annotation text is made.
\<close>

theorem missing_objid_escapes_with_injection:
  "snd (main demo_libs [Arg_input ''bare.fits'', Arg_annotate, Arg_inj_database ''inj.sqlite'']) =
     Inl (KeyError ''objid'')
   \<and> annotation_texts
       (fst (main demo_libs [Arg_input ''bare.fits'', Arg_annotate, Arg_inj_database ''inj.sqlite''])) =
       []"
proof -
  let ?a = "[Arg_input ''bare.fits'', Arg_annotate, Arg_inj_database ''inj.sqlite'']"
  let ?o = "parser_defaults\<lparr>annotate := True, inj_database := Some ''inj.sqlite'',
                             input := OpenedFile ''bare.fits''\<rparr>"
  let ?md = "demo_metadata(''objid'' := None)"
  have o: "contour ?o = None" "\<not> geo ?o" "inj_database ?o = Some ''inj.sqlite''"
    "name (input ?o) = ''bare.fits''" "\<not> colorbar ?o"
    by (simp_all add: parser_defaults_def)
  have rd: "read_sky_map demo_libs (name (input ?o)) = Inr (demo_skymap, ?md)"
    by (simp only: o demo_read)
  have gt: "?md ''gps_time'' = Some (PyFloat 1126259462)"
    and nst: "?md ''nest'' = Some (PyBool False)" and no: "?md ''objid'' = None"
    by (simp_all add: demo_meta)
  note m = main_after_markers[OF demo_parse_bare_annotated_inj rd demo_healpix gt demo_time
      demo_vmax nst demo_no_contours[OF o(1)] demo_no_continents[OF o(2)]]
  have mk: "marker_positions demo_libs ?o ?md = ([], Inl (KeyError ''objid''))"
    by (simp add: marker_positions_some[OF o(3)] no)
  have s: "snd (main demo_libs ?a) = Inl (KeyError ''objid'')"
    unfolding m by (simp add: mk)
  have t: "annotation_texts (fst (main demo_libs ?a)) = []"
    unfolding m using o(5)
    by (simp add: mk reader_simps drawn_map_reads add_colorbar_eq)
  from s t show ?thesis by (intro conjI)
qed



subsection \<open>The default input\<close>

text \<open>
  C9. The code at the input on which it departs from the claim: no positional
  argument. The input option is the standard input stream, but line 80 hands the
  reader \<open>opts.input.name\<close>, the string \<open><stdin>\<close>, and never the stream. The reader
  receives that string as the name of the file to read, whatever the installation;
  on an installation whose reader opens the file it is given by name the run ends
  there, for want of such a file, and nothing is read from standard input.
\<close>

theorem default_input_is_passed_as_a_file_name:
  "parse_args env [] = ([], Inr parser_defaults)
   \<and> input parser_defaults = Stdin
   \<and> sky_maps_read (fst (main env [])) = [''<stdin>'']
   \<and> main file_libs [] = ([ReadSkyMap ''<stdin>''], Inl (OtherError ''FileNotFoundError''))"
proof -
  have p: "parse_args env [] = ([], Inr parser_defaults)" for env
    by (simp add: parse_args_def run_defs file_type_rb_def input_default_def parser_defaults_def)
  have i: "input parser_defaults = Stdin" by (simp add: parser_defaults_def)
  have n0: "positionals [] = []" by (simp add: positionals_def)
  from reader_called_with_input_name[OF p] n0
  have r: "sky_maps_read (fst (main env [])) = [''<stdin>'']" by blast
  have f: "read_sky_map file_libs ''<stdin>'' = Inl (OtherError ''FileNotFoundError'')"
    by (simp add: file_libs_def)
  have m: "main file_libs [] = ([ReadSkyMap ''<stdin>''], Inl (OtherError ''FileNotFoundError''))"
    by (simp add: main_def p i f run_defs)
  from p i r m show ?thesis by (intro conjI)
qed

end
